theory Spec2Isabelle
  imports Main
begin

section \<open>JavaScript values, requests and responses\<close>

text \<open>
  Request bodies and cookies are untyped at run time, so they are modelled as JavaScript
  values.  Object properties are an association list in source order.
\<close>

datatype jsval =
    JUndefined
  | JNull
  | JBool bool
  | JNum int
  | JStr string
  | JArr "jsval list"
  | JObj "(string \<times> jsval) list"

fun typeof :: "jsval \<Rightarrow> string" where
  "typeof JUndefined = ''undefined''"
| "typeof JNull = ''object''"
| "typeof (JBool b) = ''boolean''"
| "typeof (JNum n) = ''number''"
| "typeof (JStr s) = ''string''"
| "typeof (JArr vs) = ''object''"
| "typeof (JObj kvs) = ''object''"

fun isArray :: "jsval \<Rightarrow> bool" where
  "isArray (JArr vs) = True"
| "isArray v = False"

text \<open>\<^verbatim>\<open>util/helper.ts\<close>:
  \<^verbatim>\<open>return value !== null && typeof value === "object" && !Array.isArray(value);\<close>\<close>

definition isObject :: "jsval \<Rightarrow> bool" where
  "isObject v \<longleftrightarrow> v \<noteq> JNull \<and> typeof v = ''object'' \<and> \<not> isArray v"

text \<open>Property read \<^verbatim>\<open>value.key\<close>; a missing property reads as \<^verbatim>\<open>undefined\<close>
  (a duplicated key keeps its last value).\<close>

fun member :: "jsval \<Rightarrow> string \<Rightarrow> jsval" where
  "member (JObj kvs) k = (case map_of (rev kvs) k of Some v \<Rightarrow> v | None \<Rightarrow> JUndefined)"
| "member v k = JUndefined"

text \<open>Rows of the three tables (the timestamps of \<^verbatim>\<open>User\<close> and \<^verbatim>\<open>JobApplication\<close>
  are left out: no handler reads them).\<close>

record User =
  u_id :: string
  u_email :: string
  u_username :: string
  u_firstname :: "string option"
  u_hashedPassword :: string

record RefreshToken =
  rt_id :: string
  rt_hash :: string
  rt_jti :: string
  rt_userId :: string
  rt_createdAt :: nat

record JobApplication =
  ja_id :: string
  ja_companyName :: string
  ja_jobTitle :: string
  ja_workModel :: string
  ja_salary :: int
  ja_status :: string
  ja_userId :: string

record request =
  body :: jsval
  cookies_refreshToken :: jsval
  authorization :: "string option"
  params_id :: string
  userId :: string

datatype content =
    NoContent
  | Message string
  | AccessToken string
  | TokenPair string string
  | Applications "JobApplication list"

datatype cookie_effect =
    Untouched
  | SetRefreshCookie string
  | ClearRefreshCookie

record response =
  status :: nat
  content :: content
  cookie :: cookie_effect

abbreviation OK :: nat where "OK \<equiv> 200"
abbreviation CREATED :: nat where "CREATED \<equiv> 201"
abbreviation NO_CONTENT :: nat where "NO_CONTENT \<equiv> 204"
abbreviation BAD_REQUEST :: nat where "BAD_REQUEST \<equiv> 400"
abbreviation UNAUTHORIZED :: nat where "UNAUTHORIZED \<equiv> 401"
abbreviation FORBIDDEN :: nat where "FORBIDDEN \<equiv> 403"
abbreviation INTERNAL_SERVER_ERROR :: nat where "INTERNAL_SERVER_ERROR \<equiv> 500"

text \<open>\<^verbatim>\<open>res.status(c).json({ message })\<close>, \<^verbatim>\<open>res.status(c).send()\<close> and
  \<^verbatim>\<open>res.sendStatus(c)\<close>: a response that leaves the cookie alone.\<close>

definition reply :: "nat \<Rightarrow> content \<Rightarrow> response" where
  "reply c b = \<lparr>status = c, content = b, cookie = Untouched\<rparr>"

section \<open>What the handlers take from outside\<close>

datatype jwt_error = JsonWebTokenError | TokenExpiredError

datatype prisma_error =
    P2002  \<comment> \<open>unique constraint failed\<close>
  | P2003  \<comment> \<open>foreign key constraint failed\<close>
  | P2020  \<comment> \<open>value out of range for the column type\<close>
  | P2025  \<comment> \<open>record to update or delete not found\<close>
  | PrismaValidation

datatype exn =
    JwtError jwt_error
  | PrismaError prisma_error
  | BcryptError
  | TypeError

text \<open>\<^verbatim>\<open>createJwtPayload\<close> builds \<^verbatim>\<open>{ sub, jti }\<close>; a verified token decodes to the same
  two fields plus the issue and expiry times that signing added.\<close>

record JwtPayload =
  sub :: string
  jti :: string

record JwtClaims = JwtPayload +
  iat :: nat
  exp :: nat

text \<open>
  The \<^verbatim>\<open>jsonwebtoken\<close> and \<^verbatim>\<open>bcrypt\<close> packages are not part of the repository: the
  handlers take them as parameters.  \<open>jwt_sign payload secret expiresIn now\<close> is
  \<^verbatim>\<open>jwt.sign(payload, secret, { expiresIn })\<close> at clock reading \<open>now\<close> (seconds);
  \<open>jwt_verify token secret now\<close> is \<^verbatim>\<open>jwt.verify(token, secret)\<close>, which throws on a bad
  signature or an expired token.  \<open>bcrypt_hash salt rounds data\<close> is
  \<^verbatim>\<open>bcrypt.hash(data, rounds)\<close> with the salt it drew.
\<close>

record 't signer =
  jwt_sign :: "JwtPayload \<Rightarrow> string \<Rightarrow> nat \<Rightarrow> nat \<Rightarrow> 't"
  jwt_verify :: "'t \<Rightarrow> string \<Rightarrow> nat \<Rightarrow> jwt_error + JwtClaims"

record hasher =
  bcrypt_hash :: "string \<Rightarrow> nat \<Rightarrow> string \<Rightarrow> string"
  bcrypt_compare :: "string \<Rightarrow> string \<Rightarrow> bool"

text \<open>\<^verbatim>\<open>process.env\<close>.\<close>

record env =
  ACCESS_TOKEN_SECRET :: "string option"
  REFRESH_TOKEN_SECRET :: "string option"

text \<open>\<^verbatim>\<open>!secret\<close>: undefined or the empty string.\<close>

definition unset :: "string option \<Rightarrow> bool" where
  "unset s \<longleftrightarrow> s = None \<or> s = Some []"

text \<open>
  What one request draws from its surroundings: the clock, the two \<^verbatim>\<open>randomUUID()\<close>
  results in call order, the salts of the first and second \<^verbatim>\<open>bcrypt.hash\<close>, and the
  primary keys the database generates for a new user and a new refresh-token row.
\<close>

record drawn =
  clock :: nat
  uuid_1 :: string
  uuid_2 :: string
  salt_1 :: string
  salt_2 :: string
  new_user_id :: string
  new_row_id :: string

section \<open>Services\<close>

subsection \<open>\<^verbatim>\<open>util/crypto.util.ts\<close>\<close>

text \<open>\<^verbatim>\<open>bcrypt.hash(str, 10)\<close> and \<^verbatim>\<open>bcrypt.compare(data, encrypted)\<close>; both reject data
  that is not a string.\<close>

definition hash :: "hasher \<Rightarrow> string \<Rightarrow> jsval \<Rightarrow> exn + string" where
  "hash H salt str = (case str of JStr s \<Rightarrow> Inr (bcrypt_hash H salt 10 s) | _ \<Rightarrow> Inl BcryptError)"

definition compare :: "hasher \<Rightarrow> jsval \<Rightarrow> string \<Rightarrow> exn + bool" where
  "compare H data encrypted =
     (case data of JStr s \<Rightarrow> Inr (bcrypt_compare H s encrypted) | _ \<Rightarrow> Inl BcryptError)"

subsection \<open>\<^verbatim>\<open>services/jwt.service.ts\<close>\<close>

definition generateAccessToken :: "'t signer \<Rightarrow> JwtPayload \<Rightarrow> string \<Rightarrow> nat \<Rightarrow> 't" where
  "generateAccessToken S payload secretAccessKey now = jwt_sign S payload secretAccessKey (15 * 60) now"

definition generateRefreshToken :: "'t signer \<Rightarrow> JwtPayload \<Rightarrow> string \<Rightarrow> nat \<Rightarrow> 't" where
  "generateRefreshToken S payload secretRefreshKey now =
     jwt_sign S payload secretRefreshKey (7 * 24 * 60 * 60) now"

definition createJwtPayload :: "string \<Rightarrow> string \<Rightarrow> JwtPayload" where
  "createJwtPayload s j = \<lparr>sub = s, jti = j\<rparr>"

subsection \<open>The database\<close>

text \<open>
  Tables are lists of rows.  The migrations give \<^verbatim>\<open>User\<close> a primary key and a unique
  email, \<^verbatim>\<open>RefreshToken\<close> a primary key and unique indexes on \<^verbatim>\<open>hash\<close>, on the jti
  column and on \<^verbatim>\<open>userId\<close> (with a foreign key to \<^verbatim>\<open>User\<close>), and \<^verbatim>\<open>JobApplication\<close>
  a primary key.  A write that would break one of them throws, as Prisma does.
\<close>

record database =
  users :: "User list"
  refreshTokens :: "RefreshToken list"
  jobApplications :: "JobApplication list"

subsection \<open>\<^verbatim>\<open>services/users.service.ts\<close>\<close>

definition findUserById :: "string \<Rightarrow> database \<Rightarrow> User option" where
  "findUserById uid db = find (\<lambda>u. u_id u = uid) (users db)"

definition findUserByEmail :: "jsval \<Rightarrow> database \<Rightarrow> exn + User option" where
  "findUserByEmail e db =
     (case e of
        JStr s \<Rightarrow> Inr (find (\<lambda>u. u_email u = s) (users db))
      | _ \<Rightarrow> Inl (PrismaError PrismaValidation))"

definition createUser :: "jsval \<Rightarrow> jsval \<Rightarrow> string \<Rightarrow> string \<Rightarrow> database \<Rightarrow> exn + User \<times> database" where
  "createUser uname e hashedPassword fresh db =
     (case (uname, e) of
        (JStr n, JStr m) \<Rightarrow>
          if list_ex (\<lambda>u. u_id u = fresh \<or> u_email u = m) (users db)
          then Inl (PrismaError P2002)
          else
            let created = \<lparr>u_id = fresh, u_email = m, u_username = n, u_firstname = None,
                            u_hashedPassword = hashedPassword\<rparr>
            in Inr (created, db\<lparr>users := users db @ [created]\<rparr>)
      | _ \<Rightarrow> Inl (PrismaError PrismaValidation))"

subsection \<open>\<^verbatim>\<open>services/refreshTokens.service.ts\<close>\<close>

definition findRefreshTokenByUserId :: "string \<Rightarrow> database \<Rightarrow> RefreshToken option" where
  "findRefreshTokenByUserId uid db = find (\<lambda>r. rt_userId r = uid) (refreshTokens db)"

definition updateHashOfRefreshTokenByUserId ::
    "string \<Rightarrow> string \<Rightarrow> string \<Rightarrow> database \<Rightarrow> exn + database" where
  "updateHashOfRefreshTokenByUserId uid h j db =
     (case find (\<lambda>r. rt_userId r = uid) (refreshTokens db) of
        None \<Rightarrow> Inl (PrismaError P2025)
      | Some _ \<Rightarrow>
          if list_ex (\<lambda>r. rt_userId r \<noteq> uid \<and> (rt_hash r = h \<or> rt_jti r = j)) (refreshTokens db)
          then Inl (PrismaError P2002)
          else Inr (db\<lparr>refreshTokens :=
                 map (\<lambda>r. if rt_userId r = uid then r\<lparr>rt_hash := h, rt_jti := j\<rparr> else r)
                   (refreshTokens db)\<rparr>))"

definition createRefreshToken ::
    "string \<Rightarrow> string \<Rightarrow> string \<Rightarrow> drawn \<Rightarrow> database \<Rightarrow> exn + database" where
  "createRefreshToken h uid j d db =
     (if \<not> list_ex (\<lambda>u. u_id u = uid) (users db) then Inl (PrismaError P2003)
      else if list_ex (\<lambda>r. rt_id r = new_row_id d \<or> rt_userId r = uid \<or> rt_hash r = h \<or> rt_jti r = j)
                (refreshTokens db)
      then Inl (PrismaError P2002)
      else Inr (db\<lparr>refreshTokens := refreshTokens db @
                 [\<lparr>rt_id = new_row_id d, rt_hash = h, rt_jti = j, rt_userId = uid,
                   rt_createdAt = clock d\<rparr>]\<rparr>))"

definition upsertHashOfRefreshTokenByUserId ::
    "string \<Rightarrow> string \<Rightarrow> string \<Rightarrow> drawn \<Rightarrow> database \<Rightarrow> exn + database" where
  "upsertHashOfRefreshTokenByUserId uid h j d db =
     (case find (\<lambda>r. rt_userId r = uid) (refreshTokens db) of
        None \<Rightarrow> createRefreshToken h uid j d db
      | Some _ \<Rightarrow> updateHashOfRefreshTokenByUserId uid h j db)"

definition deleteRefreshTokenByUserId :: "string \<Rightarrow> database \<Rightarrow> exn + database" where
  "deleteRefreshTokenByUserId uid db =
     (case find (\<lambda>r. rt_userId r = uid) (refreshTokens db) of
        None \<Rightarrow> Inl (PrismaError P2025)
      | Some _ \<Rightarrow> Inr (db\<lparr>refreshTokens := filter (\<lambda>r. rt_userId r \<noteq> uid) (refreshTokens db)\<rparr>))"

section \<open>\<^verbatim>\<open>controllers/auth.controller.ts\<close>\<close>

text \<open>
  A handler is a function of the request and the database that returns the response and
  the database it leaves behind.  A \<^verbatim>\<open>catch\<close> block keeps whatever was written before the
  throw.  Log lines are not modelled.
\<close>

definition register ::
    "string signer \<Rightarrow> hasher \<Rightarrow> env \<Rightarrow> drawn \<Rightarrow> request \<Rightarrow> database \<Rightarrow> response \<times> database" where
  "register S H e d req db =
     (if \<not> isObject (body req)
      then (reply BAD_REQUEST (Message ''The request body is not an object''), db)
      else
        case hash H (salt_1 d) (member (body req) ''password'') of
          Inl _ \<Rightarrow> (reply INTERNAL_SERVER_ERROR NoContent, db)
        | Inr hashedPassword \<Rightarrow>
           (case createUser (member (body req) ''username'') (member (body req) ''email'')
                   hashedPassword (new_user_id d) db of
              Inl _ \<Rightarrow> (reply INTERNAL_SERVER_ERROR NoContent, db)
            | Inr (createdUser, db1) \<Rightarrow>
                let createdUserId = u_id createdUser in
                if unset (ACCESS_TOKEN_SECRET e) \<or> unset (REFRESH_TOKEN_SECRET e)
                then (reply INTERNAL_SERVER_ERROR (Message ''Server misconfigured''), db1)
                else
                  let secretRefreshKey = the (REFRESH_TOKEN_SECRET e);
                      secretAccessKey = the (ACCESS_TOKEN_SECRET e);
                      accessTokenJti = uuid_1 d;
                      accessToken = generateAccessToken S
                        (createJwtPayload createdUserId accessTokenJti) secretAccessKey (clock d);
                      refreshTokenJti = uuid_2 d;
                      refreshToken = generateRefreshToken S
                        (createJwtPayload createdUserId refreshTokenJti) secretRefreshKey (clock d)
                  in
                   (case hash H (salt_2 d) (JStr refreshToken) of
                      Inl _ \<Rightarrow> (reply INTERNAL_SERVER_ERROR NoContent, db1)
                    | Inr hashedRefreshToken \<Rightarrow>
                       (case createRefreshToken hashedRefreshToken createdUserId refreshTokenJti d db1 of
                          Inl _ \<Rightarrow> (reply INTERNAL_SERVER_ERROR NoContent, db1)
                        | Inr db2 \<Rightarrow>
                            (\<lparr>status = CREATED, content = AccessToken accessToken,
                              cookie = SetRefreshCookie refreshToken\<rparr>, db2)))))"

definition login ::
    "string signer \<Rightarrow> hasher \<Rightarrow> env \<Rightarrow> drawn \<Rightarrow> request \<Rightarrow> database \<Rightarrow> response \<times> database" where
  "login S H e d req db =
     (if \<not> isObject (body req)
      then (reply BAD_REQUEST (Message ''The request body is not an object''), db)
      else
        let email = member (body req) ''email'' in
        case findUserByEmail email db of
          Inl _ \<Rightarrow> (reply INTERNAL_SERVER_ERROR NoContent, db)
        | Inr None \<Rightarrow> (reply UNAUTHORIZED (Message ''Email or password are incorrect''), db)
        | Inr (Some user) \<Rightarrow>
            let userId = u_id user;
                storedHashedPassword = u_hashedPassword user;
                plaintextPassword = member (body req) ''password''
            in
             (case compare H plaintextPassword storedHashedPassword of
                Inl _ \<Rightarrow> (reply INTERNAL_SERVER_ERROR NoContent, db)
              | Inr isPasswordCorrect \<Rightarrow>
                  if \<not> isPasswordCorrect
                  then (reply UNAUTHORIZED (Message ''Email or password are incorrect''), db)
                  else if unset (ACCESS_TOKEN_SECRET e) \<or> unset (REFRESH_TOKEN_SECRET e)
                  then (reply INTERNAL_SERVER_ERROR (Message ''Server misconfigured''), db)
                  else
                    let secretRefreshKey = the (REFRESH_TOKEN_SECRET e);
                        secretAccessKey = the (ACCESS_TOKEN_SECRET e);
                        accessTokenJti = uuid_1 d;
                        accessToken = generateAccessToken S
                          (createJwtPayload userId accessTokenJti) secretAccessKey (clock d);
                        refreshTokenJti = uuid_2 d;
                        refreshToken = generateRefreshToken S
                          (createJwtPayload userId refreshTokenJti) secretRefreshKey (clock d)
                    in
                     (case hash H (salt_1 d) (JStr refreshToken) of
                        Inl _ \<Rightarrow> (reply INTERNAL_SERVER_ERROR NoContent, db)
                      | Inr hashedRefreshToken \<Rightarrow>
                         (case upsertHashOfRefreshTokenByUserId userId hashedRefreshToken
                                 refreshTokenJti d db of
                            Inl _ \<Rightarrow> (reply INTERNAL_SERVER_ERROR NoContent, db)
                          | Inr db1 \<Rightarrow>
                              (\<lparr>status = OK, content = AccessToken accessToken,
                                cookie = SetRefreshCookie refreshToken\<rparr>, db1)))))"

text \<open>
  \<^verbatim>\<open>logout\<close> calls \<^verbatim>\<open>jwt.verify\<close> before its \<^verbatim>\<open>try\<close> block: a token that does not
  verify makes the handler's promise reject without a response.
\<close>

datatype outcome = Sent response | Rejected exn

definition logout ::
    "string signer \<Rightarrow> env \<Rightarrow> drawn \<Rightarrow> request \<Rightarrow> database \<Rightarrow> outcome \<times> database" where
  "logout S e d req db =
     (case cookies_refreshToken req of
        JStr refreshToken \<Rightarrow>
          if refreshToken = [] then (Sent (reply BAD_REQUEST NoContent), db)
          else if unset (REFRESH_TOKEN_SECRET e)
          then (Sent (reply INTERNAL_SERVER_ERROR (Message ''Server misconfigured'')), db)
          else
           (case jwt_verify S refreshToken (the (REFRESH_TOKEN_SECRET e)) (clock d) of
              Inl err \<Rightarrow> (Rejected (JwtError err), db)
            | Inr decoded \<Rightarrow>
                let userId = sub decoded in
                (case deleteRefreshTokenByUserId userId db of
                   Inl _ \<Rightarrow> (Sent (reply INTERNAL_SERVER_ERROR NoContent), db)
                 | Inr db1 \<Rightarrow>
                    (case findUserById userId db1 of
                       None \<Rightarrow> (Sent (reply INTERNAL_SERVER_ERROR NoContent), db1)
                     | Some user \<Rightarrow>
                         (Sent \<lparr>status = NO_CONTENT, content = NoContent,
                                cookie = ClearRefreshCookie\<rparr>, db1))))
      | _ \<Rightarrow> (Sent (reply BAD_REQUEST NoContent), db))"

definition refresh ::
    "string signer \<Rightarrow> hasher \<Rightarrow> env \<Rightarrow> drawn \<Rightarrow> request \<Rightarrow> database \<Rightarrow> response \<times> database" where
  "refresh S H e d req db =
     (case cookies_refreshToken req of
        JStr refreshToken \<Rightarrow>
          if refreshToken = []
          then (reply UNAUTHORIZED (Message ''The refresh token is not valid''), db)
          else if unset (REFRESH_TOKEN_SECRET e)
          then (reply INTERNAL_SERVER_ERROR (Message ''Server misconfigured''), db)
          else
            let secretRefreshKey = the (REFRESH_TOKEN_SECRET e) in
            (case jwt_verify S refreshToken secretRefreshKey (clock d) of
              Inl _ \<Rightarrow> (reply INTERNAL_SERVER_ERROR NoContent, db)
            | Inr decoded \<Rightarrow>
                if unset (ACCESS_TOKEN_SECRET e)
                then (reply INTERNAL_SERVER_ERROR (Message ''Server misconfigured''), db)
                else
                  let secretAccessKey = the (ACCESS_TOKEN_SECRET e);
                      userId = sub decoded
                  in
                  (case findRefreshTokenByUserId userId db of
                    None \<Rightarrow>
                      (reply FORBIDDEN
                         (Message ''The user has no refresh token stored in the database''), db)
                  | Some storedRefreshToken \<Rightarrow>
                     (case compare H (JStr refreshToken) (rt_hash storedRefreshToken) of
                        Inl _ \<Rightarrow> (reply INTERNAL_SERVER_ERROR NoContent, db)
                      | Inr isHashMatch \<Rightarrow>
                          if \<not> isHashMatch
                          then (reply FORBIDDEN (Message ''The refresh token is not valid''), db)
                          else
                            let isJtiMatch = (jti decoded = rt_jti storedRefreshToken) in
                            if \<not> isJtiMatch
                            then (reply FORBIDDEN (Message ''The refresh token is not valid''), db)
                            else
                              let newAccessTokenJti = uuid_1 d;
                                  newAccessToken = generateAccessToken S
                                    (createJwtPayload userId newAccessTokenJti) secretAccessKey (clock d);
                                  newRefreshTokenJti = uuid_2 d;
                                  newRefreshToken = generateRefreshToken S
                                    (createJwtPayload userId newRefreshTokenJti) secretRefreshKey (clock d)
                              in
                               (case hash H (salt_1 d) (JStr newRefreshToken) of
                                  Inl _ \<Rightarrow> (reply INTERNAL_SERVER_ERROR NoContent, db)
                                | Inr newHashedRefreshToken \<Rightarrow>
                                   (case updateHashOfRefreshTokenByUserId userId
                                           newHashedRefreshToken newRefreshTokenJti db of
                                      Inl _ \<Rightarrow> (reply INTERNAL_SERVER_ERROR NoContent, db)
                                    | Inr db1 \<Rightarrow>
                                       (case findUserById userId db1 of
                                          None \<Rightarrow> (reply INTERNAL_SERVER_ERROR NoContent, db1)
                                        | Some user \<Rightarrow>
                                            (\<lparr>status = OK,
                                              content = TokenPair newAccessToken newRefreshToken,
                                              cookie = SetRefreshCookie refreshToken\<rparr>, db1)))))))
      | _ \<Rightarrow> (reply UNAUTHORIZED (Message ''The refresh token is not valid''), db))"

section \<open>\<^verbatim>\<open>middleware/authenticateToken.middleware.ts\<close>\<close>

text \<open>\<^verbatim>\<open>String.prototype.split\<close> on a one-character separator.\<close>

fun js_split :: "char \<Rightarrow> string \<Rightarrow> string list" where
  "js_split c [] = [[]]"
| "js_split c (x # xs) =
     (if x = c then [] # js_split c xs
      else (case js_split c xs of [] \<Rightarrow> [[x]] | p # ps \<Rightarrow> (x # p) # ps))"

text \<open>An array element read by destructuring: \<^verbatim>\<open>undefined\<close> past the end.\<close>

fun element :: "'a list \<Rightarrow> nat \<Rightarrow> 'a option" where
  "element [] n = None"
| "element (x # xs) 0 = Some x"
| "element (x # xs) (Suc n) = element xs n"

text \<open>
  The middleware answers itself, hands the request on with \<^verbatim>\<open>req.userId\<close> set, or lets the
  exception of \<^verbatim>\<open>jwt.verify\<close> escape (it has no \<^verbatim>\<open>try\<close>).
\<close>

datatype verdict = Respond response | Next string | Throw exn

definition authenticateToken :: "string signer \<Rightarrow> env \<Rightarrow> nat \<Rightarrow> request \<Rightarrow> verdict" where
  "authenticateToken S e now req =
     (case authorization req of
        None \<Rightarrow> Respond (reply UNAUTHORIZED (Message ''Missing Authorization header''))
      | Some authHeader \<Rightarrow>
          if authHeader = []
          then Respond (reply UNAUTHORIZED (Message ''Missing Authorization header''))
          else
            let parts = js_split CHR '' '' authHeader;
                scheme = element parts 0;
                token = element parts 1
            in
            if scheme \<noteq> Some ''Bearer'' \<or> token = None \<or> token = Some []
            then Respond (reply UNAUTHORIZED (Message ''Invalid Authorization header format''))
            else if unset (ACCESS_TOKEN_SECRET e)
            then Respond (reply INTERNAL_SERVER_ERROR (Message ''Server misconfigured''))
            else
              (case jwt_verify S (the token) (the (ACCESS_TOKEN_SECRET e)) now of
                 Inl err \<Rightarrow> Throw (JwtError err)
               | Inr decoded \<Rightarrow> Next (sub decoded)))"

text \<open>The status of the response the middleware wrote itself, if it wrote one.\<close>

fun answered :: "verdict \<Rightarrow> nat option" where
  "answered (Respond r) = Some (status r)"
| "answered (Next uid) = None"
| "answered (Throw x) = None"

section \<open>Job applications\<close>

subsection \<open>\<^verbatim>\<open>services/applications.service.ts\<close>\<close>

definition findApplicationsByUserId :: "string \<Rightarrow> database \<Rightarrow> JobApplication list" where
  "findApplicationsByUserId uid db = filter (\<lambda>a. ja_userId a = uid) (jobApplications db)"






datatype looked_up = Member string | Inherited string | Missing





subsection \<open>\<^verbatim>\<open>controllers/applications.controller.ts\<close>\<close>



definition getAllApplications :: "request \<Rightarrow> database \<Rightarrow> outcome \<times> database" where
  "getAllApplications req db =
     (Sent (reply OK (Applications (findApplicationsByUserId (userId req) db))), db)"

section \<open>Sequences of logins\<close>

text \<open>Login calls served one after the other, each on the database the previous one left;
  every call comes with what it draws from its surroundings.\<close>

fun logins ::
    "string signer \<Rightarrow> hasher \<Rightarrow> env \<Rightarrow> (drawn \<times> request) list \<Rightarrow> database
      \<Rightarrow> response list \<times> database" where
  "logins S H e [] db = ([], db)"
| "logins S H e ((d, req) # rest) db =
     (let (r, db1) = login S H e d req db;
          (rs, db2) = logins S H e rest db1
      in (r # rs, db2))"

text \<open>The refresh token that \<^verbatim>\<open>login\<close> signs for user \<open>uid\<close>:
  \<^verbatim>\<open>generateRefreshToken(createJwtPayload(userId, refreshTokenJti), secretRefreshKey)\<close> with the
  jti and clock reading the call drew.\<close>

definition issuedRefreshToken :: "string signer \<Rightarrow> string \<Rightarrow> string \<Rightarrow> drawn \<Rightarrow> string" where
  "issuedRefreshToken S rk uid d = generateRefreshToken S (createJwtPayload uid (uuid_2 d)) rk (clock d)"

section \<open>A reference signer\<close>

text \<open>
  Modelled from the spec: the \<^verbatim>\<open>jsonwebtoken\<close> package, whose \<^verbatim>\<open>sign\<close> and \<^verbatim>\<open>verify\<close> the
  services call, is not among the sources.  The spec's Token Signer contract is: issuing
  produces a signed token encoding \<^verbatim>\<open>{sub, jti}\<close> with a fixed expiry, and \<^verbatim>\<open>verify\<close> fails if
  the signature is invalid or the token is expired.  A token is its claims together with a
  signature; the signature is the keyed MAC of the claims, kept as a symbolic term, so
  that two signatures agree only for the same secret and the same claims.
\<close>

datatype mac = Hmac string JwtClaims

record jwt =
  jwt_claims :: JwtClaims
  jwt_signature :: mac

definition jsonwebtoken :: "jwt signer" where
  "jsonwebtoken =
     \<lparr>jwt_sign = (\<lambda>payload secret expiresIn now.
        let c = \<lparr>sub = sub payload, jti = jti payload, iat = now, exp = now + expiresIn\<rparr>
        in \<lparr>jwt_claims = c, jwt_signature = Hmac secret c\<rparr>),
      jwt_verify = (\<lambda>token secret now.
        if jwt_signature token \<noteq> Hmac secret (jwt_claims token) then Inl JsonWebTokenError
        else if exp (jwt_claims token) \<le> now then Inl TokenExpiredError
        else Inr (jwt_claims token))\<rparr>"

section \<open>A sample deployment\<close>

text \<open>
  Concrete parameters on which the theorems below are instantiated.  The signer keeps a
  ledger of the tokens that exist, each with the secret it was signed with and its claims;
  verification accepts a token of the ledger under that secret until its expiry.  The
  hasher accepts exactly the string it hashed.
\<close>

definition ledger_signer :: "(string \<times> string \<times> JwtClaims) list \<Rightarrow> string signer" where
  "ledger_signer issued =
     \<lparr>jwt_sign = (\<lambda>p k ttl now. ''jwt.'' @ sub p @ ''.'' @ jti p @ ''.'' @ k),
      jwt_verify = (\<lambda>t k now.
        case map_of issued t of
          None \<Rightarrow> Inl JsonWebTokenError
        | Some (k', c) \<Rightarrow>
            if k' \<noteq> k then Inl JsonWebTokenError
            else if exp c \<le> now then Inl TokenExpiredError
            else Inr c)\<rparr>"

definition claims :: "string \<Rightarrow> string \<Rightarrow> nat \<Rightarrow> nat \<Rightarrow> JwtClaims" where
  "claims s j i x = \<lparr>sub = s, jti = j, iat = i, exp = x\<rparr>"

definition sample_signer :: "string signer" where
  "sample_signer = ledger_signer
     [(''jwt.u1.j0.rk'', ''rk'', claims ''u1'' ''j0'' 0 604800),
      (''jwt.u1.j1.rk'', ''rk'', claims ''u1'' ''j1'' 100 604900),
      (''jwt.u1.j2.rk'', ''rk'', claims ''u1'' ''j2'' 200 605000),
      (''jwt.u1.a0.ak'', ''ak'', claims ''u1'' ''a0'' 0 900),
      (''jwt.u1.j0.xx'', ''xx'', claims ''u1'' ''j0'' 0 604800),
      (''jwt.u2.j9.rk'', ''rk'', claims ''u2'' ''j9'' 0 604800)]"

definition sample_hasher :: hasher where
  "sample_hasher =
     \<lparr>bcrypt_hash = (\<lambda>salt rounds s. CHR ''$'' # s),
      bcrypt_compare = (\<lambda>s h. h = CHR ''$'' # s)\<rparr>"

definition sample_env :: env where
  "sample_env = \<lparr>ACCESS_TOKEN_SECRET = Some ''ak'', REFRESH_TOKEN_SECRET = Some ''rk''\<rparr>"

definition alice :: User where
  "alice = \<lparr>u_id = ''u1'', u_email = ''alice@example.com'', u_username = ''alice'',
     u_firstname = None, u_hashedPassword = ''$pw123''\<rparr>"

definition bob :: User where
  "bob = \<lparr>u_id = ''u2'', u_email = ''bob@example.com'', u_username = ''bob'',
     u_firstname = None, u_hashedPassword = ''$hunter2''\<rparr>"

definition alice_session :: RefreshToken where
  "alice_session = \<lparr>rt_id = ''r0'', rt_hash = ''$jwt.u1.j0.rk'', rt_jti = ''j0'',
     rt_userId = ''u1'', rt_createdAt = 0\<rparr>"

definition bob_session :: RefreshToken where
  "bob_session = \<lparr>rt_id = ''r9'', rt_hash = ''$jwt.u2.j9.rk'', rt_jti = ''j9'',
     rt_userId = ''u2'', rt_createdAt = 0\<rparr>"

definition bobs_application :: JobApplication where
  "bobs_application = \<lparr>ja_id = ''app7'', ja_companyName = ''Initech'', ja_jobTitle = ''Engineer'',
     ja_workModel = ''REMOTE'', ja_salary = 50000, ja_status = ''APPLIED'', ja_userId = ''u2''\<rparr>"

definition sample_db :: database where
  "sample_db = \<lparr>users = [alice, bob], refreshTokens = [alice_session],
     jobApplications = [bobs_application]\<rparr>"

definition rotated_db :: database where
  "rotated_db = sample_db\<lparr>refreshTokens :=
     [alice_session\<lparr>rt_hash := ''$jwt.u1.j1.rk'', rt_jti := ''j1''\<rparr>]\<rparr>"

definition relogged_db :: database where
  "relogged_db = sample_db\<lparr>refreshTokens :=
     [alice_session\<lparr>rt_hash := ''$jwt.u1.j2.rk'', rt_jti := ''j2''\<rparr>]\<rparr>"





definition alice_credentials :: jsval where
  "alice_credentials =
     JObj [(''email'', JStr ''alice@example.com''), (''password'', JStr ''pw123'')]"

definition at_time :: "nat \<Rightarrow> string \<Rightarrow> string \<Rightarrow> drawn" where
  "at_time t u1 u2 = \<lparr>clock = t, uuid_1 = u1, uuid_2 = u2, salt_1 = ''s1'', salt_2 = ''s2'',
     new_user_id = ''u3'', new_row_id = ''r1''\<rparr>"

definition with_cookie :: "jsval \<Rightarrow> request" where
  "with_cookie c = \<lparr>body = JUndefined, cookies_refreshToken = c, authorization = None,
     params_id = [], userId = []\<rparr>"

definition with_body :: "jsval \<Rightarrow> request" where
  "with_body b = \<lparr>body = b, cookies_refreshToken = JUndefined, authorization = None,
     params_id = [], userId = []\<rparr>"

definition with_header :: "string option \<Rightarrow> request" where
  "with_header h = \<lparr>body = JUndefined, cookies_refreshToken = JUndefined, authorization = h,
     params_id = [], userId = []\<rparr>"


section \<open>The body shape check of register and login\<close>

lemma isObject_iff: "isObject v \<longleftrightarrow> (\<exists>kvs. v = JObj kvs)"
  by (cases v) (auto simp: isObject_def)

lemma register_status_400:
  "status (fst (register S H e d req db)) = BAD_REQUEST \<longleftrightarrow> \<not> isObject (body req)"
  by (simp add: register_def reply_def Let_def split: sum.split prod.split)

lemma login_status_400:
  "status (fst (login S H e d req db)) = BAD_REQUEST \<longleftrightarrow> \<not> isObject (body req)"
  by (simp add: login_def reply_def Let_def split: sum.split option.split)

text \<open>
  C10.  \<^verbatim>\<open>register\<close> and \<^verbatim>\<open>login\<close> answer 400 exactly when the body is \<^verbatim>\<open>null\<close>, an array
  or not of type object.  Every object passes the check, the empty object included: with
  no \<^verbatim>\<open>password\<close> (register) or no \<^verbatim>\<open>email\<close> (login) the handler goes on with the undefined
  field and ends in its \<^verbatim>\<open>catch\<close> block with 500, not in the BadRequest branch.
\<close>

theorem body_shape_check:
  "(status (fst (register S H e d req db)) = BAD_REQUEST
      \<longleftrightarrow> body req = JNull \<or> isArray (body req) \<or> typeof (body req) \<noteq> ''object'')
   \<and> (status (fst (login S H e d req db)) = BAD_REQUEST
      \<longleftrightarrow> body req = JNull \<or> isArray (body req) \<or> typeof (body req) \<noteq> ''object'')
   \<and> isObject (JObj kvs)
   \<and> status (fst (register S H e d (req\<lparr>body := JObj []\<rparr>) db)) = INTERNAL_SERVER_ERROR
   \<and> status (fst (login S H e d (req\<lparr>body := JObj []\<rparr>) db)) = INTERNAL_SERVER_ERROR"
proof -
  have shape: "\<not> isObject v \<longleftrightarrow> v = JNull \<or> isArray v \<or> typeof v \<noteq> ''object''" for v
    by (auto simp: isObject_def)
  have empty_reg:
    "status (fst (register S H e d (req\<lparr>body := JObj []\<rparr>) db)) = INTERNAL_SERVER_ERROR"
    by (simp add: register_def isObject_def hash_def reply_def)
  have empty_login:
    "status (fst (login S H e d (req\<lparr>body := JObj []\<rparr>) db)) = INTERNAL_SERVER_ERROR"
    by (simp add: login_def isObject_def findUserByEmail_def reply_def)
  have reg: "status (fst (register S H e d req db)) = BAD_REQUEST
      \<longleftrightarrow> body req = JNull \<or> isArray (body req) \<or> typeof (body req) \<noteq> ''object''"
    using register_status_400 [of S H e d req db] shape [of "body req"] by simp
  have log: "status (fst (login S H e d req db)) = BAD_REQUEST
      \<longleftrightarrow> body req = JNull \<or> isArray (body req) \<or> typeof (body req) \<noteq> ''object''"
    using login_status_400 [of S H e d req db] shape [of "body req"] by simp
  have obj: "isObject (JObj kvs)" by (simp add: isObject_def)
  from reg log obj empty_reg empty_login show ?thesis by blast
qed

section \<open>The branches of refresh\<close>

lemma unset_Some [simp]: "unset (Some k) \<longleftrightarrow> k = []"
  by (simp add: unset_def)

lemma unset_None [simp]: "unset None"
  by (simp add: unset_def)

lemma not_unsetD: "\<not> unset s \<Longrightarrow> \<exists>k. s = Some k \<and> k \<noteq> []"
  by (cases s) (auto simp: unset_def)

lemma compare_JStr [simp]: "compare H (JStr s) h = Inr (bcrypt_compare H s h)"
  by (simp add: compare_def)

lemma hash_JStr [simp]: "hash H salt (JStr s) = Inr (bcrypt_hash H salt 10 s)"
  by (simp add: hash_def)

lemma refresh_no_token:
  assumes "typeof (cookies_refreshToken req) \<noteq> ''string'' \<or> cookies_refreshToken req = JStr []"
  shows "refresh S H e d req db = (reply UNAUTHORIZED (Message ''The refresh token is not valid''), db)"
  using assms by (cases "cookies_refreshToken req") (auto simp: refresh_def)

lemma refresh_verify_throws:
  assumes "cookies_refreshToken req = JStr tok" "tok \<noteq> []"
    and "REFRESH_TOKEN_SECRET e = Some rk" "rk \<noteq> []"
    and "jwt_verify S tok rk (clock d) = Inl err"
  shows "refresh S H e d req db = (reply INTERNAL_SERVER_ERROR NoContent, db)"
  using assms by (simp add: refresh_def Let_def)

lemma refresh_no_record:
  assumes "cookies_refreshToken req = JStr tok" "tok \<noteq> []"
    and "REFRESH_TOKEN_SECRET e = Some rk" "rk \<noteq> []"
    and "ACCESS_TOKEN_SECRET e = Some ak" "ak \<noteq> []"
    and "jwt_verify S tok rk (clock d) = Inr c"
    and "findRefreshTokenByUserId (sub c) db = None"
  shows "refresh S H e d req db =
    (reply FORBIDDEN (Message ''The user has no refresh token stored in the database''), db)"
  using assms by (simp add: refresh_def Let_def)

lemma refresh_mismatch:
  assumes "cookies_refreshToken req = JStr tok" "tok \<noteq> []"
    and "REFRESH_TOKEN_SECRET e = Some rk" "rk \<noteq> []"
    and "ACCESS_TOKEN_SECRET e = Some ak" "ak \<noteq> []"
    and "jwt_verify S tok rk (clock d) = Inr c"
    and "findRefreshTokenByUserId (sub c) db = Some row"
    and "\<not> bcrypt_compare H tok (rt_hash row) \<or> jti c \<noteq> rt_jti row"
  shows "refresh S H e d req db = (reply FORBIDDEN (Message ''The refresh token is not valid''), db)"
  using assms by (auto simp: refresh_def Let_def)

lemma refresh_match:
  assumes "cookies_refreshToken req = JStr tok" "tok \<noteq> []"
    and "REFRESH_TOKEN_SECRET e = Some rk" "rk \<noteq> []"
    and "ACCESS_TOKEN_SECRET e = Some ak" "ak \<noteq> []"
    and "jwt_verify S tok rk (clock d) = Inr c"
    and "findRefreshTokenByUserId (sub c) db = Some row"
    and "bcrypt_compare H tok (rt_hash row)" "jti c = rt_jti row"
  shows "refresh S H e d req db =
    (let newAccessToken = generateAccessToken S (createJwtPayload (sub c) (uuid_1 d)) ak (clock d);
         newRefreshToken = generateRefreshToken S (createJwtPayload (sub c) (uuid_2 d)) rk (clock d)
     in case updateHashOfRefreshTokenByUserId (sub c)
               (bcrypt_hash H (salt_1 d) 10 newRefreshToken) (uuid_2 d) db of
          Inl x \<Rightarrow> (reply INTERNAL_SERVER_ERROR NoContent, db)
        | Inr db1 \<Rightarrow>
           (case findUserById (sub c) db1 of
              None \<Rightarrow> (reply INTERNAL_SERVER_ERROR NoContent, db1)
            | Some user \<Rightarrow>
                (\<lparr>status = OK, content = TokenPair newAccessToken newRefreshToken,
                  cookie = SetRefreshCookie tok\<rparr>, db1)))"
  using assms by (simp add: refresh_def Let_def)

lemma refresh_refresh_secret_unset:
  assumes "cookies_refreshToken req = JStr tok" "tok \<noteq> []" "unset (REFRESH_TOKEN_SECRET e)"
  shows "refresh S H e d req db = (reply INTERNAL_SERVER_ERROR (Message ''Server misconfigured''), db)"
  using assms by (simp add: refresh_def Let_def)

lemma refresh_access_secret_unset:
  assumes "cookies_refreshToken req = JStr tok" "tok \<noteq> []"
    and "REFRESH_TOKEN_SECRET e = Some rk" "rk \<noteq> []"
    and "jwt_verify S tok rk (clock d) = Inr c"
    and "unset (ACCESS_TOKEN_SECRET e)"
  shows "refresh S H e d req db = (reply INTERNAL_SERVER_ERROR (Message ''Server misconfigured''), db)"
  using assms by (simp add: refresh_def Let_def)

lemma refresh_OK_D:
  assumes ok: "status (fst (refresh S H e d req db)) = OK"
  shows "\<exists>tok rk ak c row.
     cookies_refreshToken req = JStr tok \<and> tok \<noteq> [] \<and>
     REFRESH_TOKEN_SECRET e = Some rk \<and> rk \<noteq> [] \<and>
     ACCESS_TOKEN_SECRET e = Some ak \<and> ak \<noteq> [] \<and>
     jwt_verify S tok rk (clock d) = Inr c \<and>
     findRefreshTokenByUserId (sub c) db = Some row \<and>
     bcrypt_compare H tok (rt_hash row) \<and> jti c = rt_jti row"
proof -
  have cookie: "\<not> (typeof (cookies_refreshToken req) \<noteq> ''string'' \<or> cookies_refreshToken req = JStr [])"
  proof
    assume "typeof (cookies_refreshToken req) \<noteq> ''string'' \<or> cookies_refreshToken req = JStr []"
    from refresh_no_token [OF this, of S H e d db] ok show False by (simp add: reply_def)
  qed
  then obtain tok where tok: "cookies_refreshToken req = JStr tok" "tok \<noteq> []"
    by (cases "cookies_refreshToken req") auto
  have "\<not> unset (REFRESH_TOKEN_SECRET e)"
  proof
    assume "unset (REFRESH_TOKEN_SECRET e)"
    from refresh_refresh_secret_unset [OF tok this, of S H d db] ok show False
      by (simp add: reply_def)
  qed
  then obtain rk where rk: "REFRESH_TOKEN_SECRET e = Some rk" "rk \<noteq> []"
    using not_unsetD by blast
  obtain c where c: "jwt_verify S tok rk (clock d) = Inr c"
  proof (cases "jwt_verify S tok rk (clock d)")
    case (Inl err)
    from refresh_verify_throws [OF tok rk this, of H db] ok have False by (simp add: reply_def)
    then show ?thesis ..
  next
    case (Inr c)
    then show ?thesis by (rule that)
  qed
  have "\<not> unset (ACCESS_TOKEN_SECRET e)"
  proof
    assume "unset (ACCESS_TOKEN_SECRET e)"
    from refresh_access_secret_unset [OF tok rk c this, of H db] ok show False
      by (simp add: reply_def)
  qed
  then obtain ak where ak: "ACCESS_TOKEN_SECRET e = Some ak" "ak \<noteq> []"
    using not_unsetD by blast
  obtain row where row: "findRefreshTokenByUserId (sub c) db = Some row"
  proof (cases "findRefreshTokenByUserId (sub c) db")
    case None
    from refresh_no_record [OF tok rk ak c this, of H] ok have False by (simp add: reply_def)
    then show ?thesis ..
  next
    case (Some row)
    then show ?thesis by (rule that)
  qed
  have "\<not> (\<not> bcrypt_compare H tok (rt_hash row) \<or> jti c \<noteq> rt_jti row)"
  proof
    assume "\<not> bcrypt_compare H tok (rt_hash row) \<or> jti c \<noteq> rt_jti row"
    from refresh_mismatch [OF tok rk ak c row this] ok show False by (simp add: reply_def)
  qed
  with tok rk ak c row show ?thesis by simp
qed

lemmas sample_defs = sample_signer_def ledger_signer_def claims_def sample_hasher_def sample_env_def
  sample_db_def alice_def bob_def alice_session_def at_time_def with_cookie_def rotated_db_def

lemmas service_defs = findRefreshTokenByUserId_def generateAccessToken_def generateRefreshToken_def
  createJwtPayload_def updateHashOfRefreshTokenByUserId_def findUserById_def

section \<open>Refresh: what a successful call does\<close>

lemma refresh_OK_cookie:
  assumes "status (fst (refresh S H e d req db)) = OK"
  shows "cookies_refreshToken req = JStr tok \<longleftrightarrow>
    cookie (fst (refresh S H e d req db)) = SetRefreshCookie tok"
proof -
  from refresh_OK_D [OF assms] obtain t rk ak c row where
    f: "cookies_refreshToken req = JStr t" "t \<noteq> []"
       "REFRESH_TOKEN_SECRET e = Some rk" "rk \<noteq> []"
       "ACCESS_TOKEN_SECRET e = Some ak" "ak \<noteq> []"
       "jwt_verify S t rk (clock d) = Inr c"
       "findRefreshTokenByUserId (sub c) db = Some row"
       "bcrypt_compare H t (rt_hash row)" "jti c = rt_jti row"
    by blast
  from assms have "cookie (fst (refresh S H e d req db)) = SetRefreshCookie t"
    unfolding refresh_match [OF f]
    by (simp add: Let_def reply_def split: sum.splits option.splits)
  with f(1) show ?thesis by auto
qed

text \<open>
  C1.  A successful refresh mints two new jtis, signs both tokens, rewrites the hash and
  jti of the stored record in place and returns both new tokens with status 200.  The
  cookie it sets, however, is the token that was presented (\<^verbatim>\<open>setRefreshCookie(res,
  refreshToken)\<close>), not the new refresh token; \<open>refresh_OK_cookie\<close> shows this for every
  successful call.  On the sample deployment the body carries \<^verbatim>\<open>jwt.u1.j1.rk\<close> while the
  cookie is set back to \<^verbatim>\<open>jwt.u1.j0.rk\<close>, the token that the rewritten record no longer
  accepts.
\<close>

theorem refresh_cookie_is_presented_token:
  "refresh sample_signer sample_hasher sample_env (at_time 100 ''a1'' ''j1'')
     (with_cookie (JStr ''jwt.u1.j0.rk'')) sample_db =
   (\<lparr>status = OK, content = TokenPair ''jwt.u1.a1.ak'' ''jwt.u1.j1.rk'',
     cookie = SetRefreshCookie ''jwt.u1.j0.rk''\<rparr>, rotated_db)"
  by (simp add: refresh_def sample_defs service_defs Let_def)

section \<open>Refresh: failure statuses\<close>

text \<open>
  C4 (as amended).  A missing, non-string or empty cookie gives 401.  A token that
  \<^verbatim>\<open>jwt.verify\<close> rejects, whether for its signature or its expiry, throws inside the
  \<^verbatim>\<open>try\<close> block and the \<^verbatim>\<open>catch\<close> answers 500 with an empty body, not 401.  With a verified
  token, no stored record for its subject gives 403, and so does a stored record whose hash
  does not match the token or whose jti differs from the token's.
\<close>

theorem refresh_failure_statuses:
  "(typeof (cookies_refreshToken req) \<noteq> ''string'' \<or> cookies_refreshToken req = JStr [] \<longrightarrow>
      refresh S H e d req db =
        (reply UNAUTHORIZED (Message ''The refresh token is not valid''), db))
   \<and> (cookies_refreshToken req = JStr tok \<and> tok \<noteq> [] \<and>
       REFRESH_TOKEN_SECRET e = Some rk \<and> rk \<noteq> [] \<longrightarrow>
        (\<forall>err. jwt_verify S tok rk (clock d) = Inl err \<longrightarrow>
           refresh S H e d req db = (reply INTERNAL_SERVER_ERROR NoContent, db))
      \<and> (\<forall>c. jwt_verify S tok rk (clock d) = Inr c \<and>
              ACCESS_TOKEN_SECRET e = Some ak \<and> ak \<noteq> [] \<longrightarrow>
             (findRefreshTokenByUserId (sub c) db = None \<longrightarrow>
                refresh S H e d req db =
                  (reply FORBIDDEN
                     (Message ''The user has no refresh token stored in the database''), db))
           \<and> (\<forall>row. findRefreshTokenByUserId (sub c) db = Some row \<and>
                  (\<not> bcrypt_compare H tok (rt_hash row) \<or> jti c \<noteq> rt_jti row) \<longrightarrow>
                refresh S H e d req db =
                  (reply FORBIDDEN (Message ''The refresh token is not valid''), db))))"
  using refresh_no_token [of req S H e d db]
    refresh_verify_throws [of req tok e rk S d _ H db]
    refresh_no_record [of req tok e rk ak S d _ db H]
    refresh_mismatch [of req tok e rk ak S d _ db _ H]
  by blast

theorem refresh_failure_statuses_witness:
  "refresh sample_signer sample_hasher sample_env (at_time 100 ''a1'' ''j1'')
      (with_cookie JUndefined) sample_db =
     (reply UNAUTHORIZED (Message ''The refresh token is not valid''), sample_db)
   \<and> refresh sample_signer sample_hasher sample_env (at_time 100 ''a1'' ''j1'')
      (with_cookie (JStr [])) sample_db =
     (reply UNAUTHORIZED (Message ''The refresh token is not valid''), sample_db)
   \<and> refresh sample_signer sample_hasher sample_env (at_time 100 ''a1'' ''j1'')
      (with_cookie (JStr ''jwt.u1.j0.xx'')) sample_db =
     (reply INTERNAL_SERVER_ERROR NoContent, sample_db)
   \<and> refresh sample_signer sample_hasher sample_env (at_time 100 ''a1'' ''j1'')
      (with_cookie (JStr ''jwt.u2.j9.rk'')) sample_db =
     (reply FORBIDDEN (Message ''The user has no refresh token stored in the database''), sample_db)
   \<and> refresh sample_signer sample_hasher sample_env (at_time 200 ''a2'' ''j2'')
      (with_cookie (JStr ''jwt.u1.j0.rk'')) rotated_db =
     (reply FORBIDDEN (Message ''The refresh token is not valid''), rotated_db)"
proof -
  let ?S = sample_signer and ?H = sample_hasher and ?e = sample_env
  let ?d = "at_time 100 ''a1'' ''j1''"
  have a: "refresh ?S ?H ?e ?d (with_cookie JUndefined) sample_db =
     (reply UNAUTHORIZED (Message ''The refresh token is not valid''), sample_db)"
    using refresh_failure_statuses [of "with_cookie JUndefined" ?S ?H ?e ?d sample_db]
    by (simp add: with_cookie_def)
  have b: "refresh ?S ?H ?e ?d (with_cookie (JStr [])) sample_db =
     (reply UNAUTHORIZED (Message ''The refresh token is not valid''), sample_db)"
    using refresh_failure_statuses [of "with_cookie (JStr [])" ?S ?H ?e ?d sample_db]
    by (simp add: with_cookie_def)
  have c: "refresh ?S ?H ?e ?d (with_cookie (JStr ''jwt.u1.j0.xx'')) sample_db =
     (reply INTERNAL_SERVER_ERROR NoContent, sample_db)"
    using refresh_failure_statuses [of "with_cookie (JStr ''jwt.u1.j0.xx'')" ?S ?H ?e ?d sample_db
        "''jwt.u1.j0.xx''" "''rk''" "''ak''"]
    by (simp add: sample_defs)
  have d: "refresh ?S ?H ?e ?d (with_cookie (JStr ''jwt.u2.j9.rk'')) sample_db =
     (reply FORBIDDEN (Message ''The user has no refresh token stored in the database''), sample_db)"
    using refresh_failure_statuses [of "with_cookie (JStr ''jwt.u2.j9.rk'')" ?S ?H ?e ?d sample_db
        "''jwt.u2.j9.rk''" "''rk''" "''ak''"]
    by (simp add: sample_defs service_defs)
  have e: "refresh ?S ?H ?e (at_time 200 ''a2'' ''j2'') (with_cookie (JStr ''jwt.u1.j0.rk'')) rotated_db =
     (reply FORBIDDEN (Message ''The refresh token is not valid''), rotated_db)"
    using refresh_failure_statuses [of "with_cookie (JStr ''jwt.u1.j0.rk'')" ?S ?H ?e
        "at_time 200 ''a2'' ''j2''" rotated_db "''jwt.u1.j0.rk''" "''rk''" "''ak''"]
    by (simp add: sample_defs service_defs)
  from a b c d e show ?thesis by simp
qed

text \<open>C4 as stated fails: a token signed with another secret and an expired token are both
  answered with 500.\<close>

theorem refresh_bad_token_is_500:
  "jwt_verify sample_signer ''jwt.u1.j0.xx'' ''rk'' 100 = Inl JsonWebTokenError
   \<and> status (fst (refresh sample_signer sample_hasher sample_env (at_time 100 ''a1'' ''j1'')
        (with_cookie (JStr ''jwt.u1.j0.xx'')) sample_db)) = INTERNAL_SERVER_ERROR
   \<and> jwt_verify sample_signer ''jwt.u1.j0.rk'' ''rk'' 604800 = Inl TokenExpiredError
   \<and> status (fst (refresh sample_signer sample_hasher sample_env (at_time 604800 ''a1'' ''j1'')
        (with_cookie (JStr ''jwt.u1.j0.rk'')) sample_db)) = INTERNAL_SERVER_ERROR
   \<and> INTERNAL_SERVER_ERROR \<noteq> UNAUTHORIZED"
  by (simp add: refresh_def sample_defs Let_def reply_def)

section \<open>Login: the credential failures\<close>

lemma login_bad_email:
  assumes "isObject (body req)"
    and "typeof (member (body req) ''email'') \<noteq> ''string''"
  shows "login S H e d req db = (reply INTERNAL_SERVER_ERROR NoContent, db)"
  using assms
  by (cases "member (body req) ''email''") (simp_all add: login_def Let_def findUserByEmail_def)

lemma login_no_user:
  assumes "isObject (body req)"
    and "findUserByEmail (member (body req) ''email'') db = Inr None"
  shows "login S H e d req db =
    (reply UNAUTHORIZED (Message ''Email or password are incorrect''), db)"
  using assms by (simp add: login_def Let_def)

lemma login_wrong_password:
  assumes "isObject (body req)"
    and "findUserByEmail (member (body req) ''email'') db = Inr (Some u)"
    and "compare H (member (body req) ''password'') (u_hashedPassword u) = Inr False"
  shows "login S H e d req db =
    (reply UNAUTHORIZED (Message ''Email or password are incorrect''), db)"
  using assms by (simp add: login_def Let_def)

lemma login_bad_password:
  assumes "isObject (body req)"
    and "findUserByEmail (member (body req) ''email'') db = Inr (Some u)"
    and "typeof (member (body req) ''password'') \<noteq> ''string''"
  shows "login S H e d req db = (reply INTERNAL_SERVER_ERROR NoContent, db)"
  using assms
  by (cases "member (body req) ''password''") (simp_all add: login_def Let_def compare_def)

text \<open>
  C5 (as amended).  Take any two login requests with object bodies, one for an email no user
  has and one for the email of an existing user.  The first is answered 401 with the
  message \<^verbatim>\<open>Email or password are incorrect\<close> and no cookie.  When the password of the
  second is a string that the comparison with the stored hash rejects, the second gets the
  very same response, so the two causes cannot be told apart.  When the password of the
  second is missing or not a string, the comparison throws and the second is answered 500
  with no content, which differs from the 401 of the first.  A login whose email is missing
  or not a string is answered 500 whatever the users are.  None of these changes the
  database.
\<close>

theorem login_failures_indistinguishable:
  assumes "isObject (body req)" and "isObject (body req')"
    and "findUserByEmail (member (body req) ''email'') db = Inr None"
    and "findUserByEmail (member (body req') ''email'') db' = Inr (Some u)"
  shows "login S H e d req db =
        (\<lparr>status = UNAUTHORIZED, content = Message ''Email or password are incorrect'',
          cookie = Untouched\<rparr>, db)
    \<and> (\<forall>pw. member (body req') ''password'' = JStr pw
            \<and> \<not> bcrypt_compare H' pw (u_hashedPassword u) \<longrightarrow>
          fst (login S' H' e' d' req' db') = fst (login S H e d req db)
          \<and> snd (login S' H' e' d' req' db') = db')
    \<and> (typeof (member (body req') ''password'') \<noteq> ''string'' \<longrightarrow>
          login S' H' e' d' req' db' =
            (\<lparr>status = INTERNAL_SERVER_ERROR, content = NoContent, cookie = Untouched\<rparr>, db')
          \<and> fst (login S' H' e' d' req' db') \<noteq> fst (login S H e d req db))
    \<and> (\<forall>q. isObject (body q) \<and> typeof (member (body q) ''email'') \<noteq> ''string'' \<longrightarrow>
          login S H e d q db =
            (\<lparr>status = INTERNAL_SERVER_ERROR, content = NoContent, cookie = Untouched\<rparr>, db))"
proof (intro conjI allI impI)
  show first: "login S H e d req db =
        (\<lparr>status = UNAUTHORIZED, content = Message ''Email or password are incorrect'',
          cookie = Untouched\<rparr>, db)"
    using login_no_user [OF assms(1,3), of S H e d] by (simp add: reply_def)
  {
    fix pw
    assume "member (body req') ''password'' = JStr pw
            \<and> \<not> bcrypt_compare H' pw (u_hashedPassword u)"
    then have "compare H' (member (body req') ''password'') (u_hashedPassword u) = Inr False"
      by simp
    from login_wrong_password [OF assms(2,4) this, of S' e' d'] first
    show "fst (login S' H' e' d' req' db') = fst (login S H e d req db)"
      and "snd (login S' H' e' d' req' db') = db'"
      by (simp_all add: reply_def)
  }
  {
    assume "typeof (member (body req') ''password'') \<noteq> ''string''"
    from login_bad_password [OF assms(2,4) this, of S' H' e' d'] first
    show "login S' H' e' d' req' db' =
            (\<lparr>status = INTERNAL_SERVER_ERROR, content = NoContent, cookie = Untouched\<rparr>, db')"
      and "fst (login S' H' e' d' req' db') \<noteq> fst (login S H e d req db)"
      by (simp_all add: reply_def)
  }
  {
    fix q :: request
    assume "isObject (body q) \<and> typeof (member (body q) ''email'') \<noteq> ''string''"
    then have "isObject (body q)" "typeof (member (body q) ''email'') \<noteq> ''string''"
      by simp_all
    from login_bad_email [OF this, of S H e d db]
    show "login S H e d q db =
            (\<lparr>status = INTERNAL_SERVER_ERROR, content = NoContent, cookie = Untouched\<rparr>, db)"
      by (simp add: reply_def)
  }
qed

theorem login_failures_indistinguishable_witness:
  "fst (login sample_signer sample_hasher sample_env (at_time 100 ''a1'' ''j1'')
        (with_body (JObj [(''email'', JStr ''alice@example.com''), (''password'', JStr ''letmein'')]))
        sample_db)
   = fst (login sample_signer sample_hasher sample_env (at_time 100 ''a1'' ''j1'')
        (with_body (JObj [(''email'', JStr ''carol@example.com''), (''password'', JStr ''pw123'')]))
        sample_db)
   \<and> login sample_signer sample_hasher sample_env (at_time 100 ''a1'' ''j1'')
        (with_body (JObj [(''email'', JStr ''carol@example.com''), (''password'', JStr ''pw123'')]))
        sample_db
     = (\<lparr>status = UNAUTHORIZED, content = Message ''Email or password are incorrect'',
         cookie = Untouched\<rparr>, sample_db)
   \<and> login sample_signer sample_hasher sample_env (at_time 100 ''a1'' ''j1'')
        (with_body (JObj [(''email'', JStr ''alice@example.com''), (''password'', JNum 123)]))
        sample_db
     = (\<lparr>status = INTERNAL_SERVER_ERROR, content = NoContent, cookie = Untouched\<rparr>, sample_db)
   \<and> login sample_signer sample_hasher sample_env (at_time 100 ''a1'' ''j1'')
        (with_body (JObj [(''password'', JStr ''pw123'')])) sample_db
     = (\<lparr>status = INTERNAL_SERVER_ERROR, content = NoContent, cookie = Untouched\<rparr>, sample_db)"
proof -
  let ?S = sample_signer and ?H = sample_hasher and ?e = sample_env
  let ?d = "at_time 100 ''a1'' ''j1''"
  let ?r1 = "with_body (JObj [(''email'', JStr ''carol@example.com''), (''password'', JStr ''pw123'')])"
  let ?r2 = "with_body (JObj [(''email'', JStr ''alice@example.com''), (''password'', JStr ''letmein'')])"
  let ?r3 = "with_body (JObj [(''email'', JStr ''alice@example.com''), (''password'', JNum 123)])"
  let ?r4 = "with_body (JObj [(''password'', JStr ''pw123'')])"
  have 1: "isObject (body ?r1)" and 2: "isObject (body ?r2)" and 3: "isObject (body ?r3)"
    by (simp_all add: with_body_def isObject_def)
  have n: "findUserByEmail (member (body ?r1) ''email'') sample_db = Inr None"
    by (simp add: with_body_def findUserByEmail_def sample_db_def alice_def bob_def)
  have f2: "findUserByEmail (member (body ?r2) ''email'') sample_db = Inr (Some alice)"
    by (simp add: with_body_def findUserByEmail_def sample_db_def alice_def bob_def)
  have f3: "findUserByEmail (member (body ?r3) ''email'') sample_db = Inr (Some alice)"
    by (simp add: with_body_def findUserByEmail_def sample_db_def alice_def bob_def)
  note t2 = login_failures_indistinguishable [OF 1 2 n f2,
      where S = ?S and H = ?H and e = ?e and d = ?d
        and S' = ?S and H' = ?H and e' = ?e and d' = ?d]
  note t3 = login_failures_indistinguishable [OF 1 3 n f3,
      where S = ?S and H = ?H and e = ?e and d = ?d
        and S' = ?S and H' = ?H and e' = ?e and d' = ?d]
  from t2 have a: "login ?S ?H ?e ?d ?r1 sample_db =
        (\<lparr>status = UNAUTHORIZED, content = Message ''Email or password are incorrect'',
          cookie = Untouched\<rparr>, sample_db)"
    by (rule conjunct1)
  have b: "fst (login ?S ?H ?e ?d ?r2 sample_db) = fst (login ?S ?H ?e ?d ?r1 sample_db)"
    using t2 [THEN conjunct2, THEN conjunct1, rule_format, of "''letmein''"]
    by (simp add: with_body_def sample_hasher_def alice_def)
  have c: "login ?S ?H ?e ?d ?r3 sample_db =
        (\<lparr>status = INTERNAL_SERVER_ERROR, content = NoContent, cookie = Untouched\<rparr>, sample_db)"
    using t3 [THEN conjunct2, THEN conjunct2, THEN conjunct1, rule_format]
    by (simp add: with_body_def)
  have e: "login ?S ?H ?e ?d ?r4 sample_db =
        (\<lparr>status = INTERNAL_SERVER_ERROR, content = NoContent, cookie = Untouched\<rparr>, sample_db)"
    using t2 [THEN conjunct2, THEN conjunct2, THEN conjunct2, rule_format, of ?r4]
    by (simp add: with_body_def isObject_def)
  from a b c e show ?thesis by simp
qed

text \<open>C5 as stated fails: of two login requests whose object body carries an email and no
  password, the one for an unknown email is answered 401 and the one for a registered
  email 500, which tells a caller whether the email is registered.\<close>

theorem login_without_password_tells_apart:
  "login sample_signer sample_hasher sample_env (at_time 100 ''a1'' ''j1'')
        (with_body (JObj [(''email'', JStr ''carol@example.com'')])) sample_db
     = (reply UNAUTHORIZED (Message ''Email or password are incorrect''), sample_db)
   \<and> login sample_signer sample_hasher sample_env (at_time 100 ''a1'' ''j1'')
        (with_body (JObj [(''email'', JStr ''alice@example.com'')])) sample_db
     = (reply INTERNAL_SERVER_ERROR NoContent, sample_db)
   \<and> isObject (body (with_body (JObj [(''email'', JStr ''alice@example.com'')])))
   \<and> find (\<lambda>u. u_email u = ''carol@example.com'') (users sample_db) = None
   \<and> find (\<lambda>u. u_email u = ''alice@example.com'') (users sample_db) = Some alice"
  by (simp add: login_def findUserByEmail_def compare_def isObject_def with_body_def
      sample_db_def alice_def bob_def Let_def)

section \<open>The bearer-token middleware\<close>

lemma js_split_no_sep: "c \<notin> set xs \<Longrightarrow> js_split c xs = [xs]"
  by (induction xs) auto

lemma authenticateToken_missing:
  assumes "authorization req = None \<or> authorization req = Some []"
  shows "authenticateToken S e now req =
    Respond (reply UNAUTHORIZED (Message ''Missing Authorization header''))"
  using assms by (auto simp: authenticateToken_def)

lemma authenticateToken_malformed:
  assumes "authorization req = Some h" "h \<noteq> []"
    and "element (js_split CHR '' '' h) 0 \<noteq> Some ''Bearer''
       \<or> element (js_split CHR '' '' h) 1 = None
       \<or> element (js_split CHR '' '' h) 1 = Some []"
  shows "authenticateToken S e now req =
    Respond (reply UNAUTHORIZED (Message ''Invalid Authorization header format''))"
  using assms by (auto simp: authenticateToken_def Let_def)

lemma authenticateToken_bearer:
  assumes "authorization req = Some (''Bearer '' @ tok)" "tok \<noteq> []" "CHR '' '' \<notin> set tok"
    and "ACCESS_TOKEN_SECRET e = Some ak" "ak \<noteq> []"
  shows "authenticateToken S e now req =
    (case jwt_verify S tok ak now of Inl err \<Rightarrow> Throw (JwtError err) | Inr c \<Rightarrow> Next (sub c))"
  using assms by (simp add: authenticateToken_def Let_def js_split_no_sep unset_def)

text \<open>
  C7 (as amended).  A request without an Authorization header, or with an empty one, is
  answered 401, and so is one whose first space-separated field is not \<^verbatim>\<open>Bearer\<close> or whose
  second field is missing or empty.  For a header \<^verbatim>\<open>Bearer <token>\<close> (access secret
  configured) the middleware calls \<^verbatim>\<open>jwt.verify\<close> outside any \<^verbatim>\<open>try\<close>: when the token is
  rejected, for its signature or its expiry, the exception leaves the middleware, which
  writes no response of its own and does not call \<^verbatim>\<open>next()\<close>; when it is accepted,
  \<^verbatim>\<open>next()\<close> runs with \<^verbatim>\<open>req.userId\<close> set to the token's subject.
\<close>

theorem authenticateToken_outcomes:
  "(authorization req = None \<or> authorization req = Some [] \<longrightarrow>
      authenticateToken S e now req =
        Respond (reply UNAUTHORIZED (Message ''Missing Authorization header'')))
   \<and> (authorization req = Some h \<and> h \<noteq> [] \<and>
       (element (js_split CHR '' '' h) 0 \<noteq> Some ''Bearer''
        \<or> element (js_split CHR '' '' h) 1 = None
        \<or> element (js_split CHR '' '' h) 1 = Some []) \<longrightarrow>
      authenticateToken S e now req =
        Respond (reply UNAUTHORIZED (Message ''Invalid Authorization header format'')))
   \<and> (authorization req = Some (''Bearer '' @ tok) \<and> tok \<noteq> [] \<and> CHR '' '' \<notin> set tok \<and>
       ACCESS_TOKEN_SECRET e = Some ak \<and> ak \<noteq> [] \<longrightarrow>
        (\<forall>err. jwt_verify S tok ak now = Inl err \<longrightarrow>
           authenticateToken S e now req = Throw (JwtError err)
           \<and> answered (authenticateToken S e now req) = None)
      \<and> (\<forall>c. jwt_verify S tok ak now = Inr c \<longrightarrow>
           authenticateToken S e now req = Next (sub c)))"
proof (intro conjI impI allI)
  assume "authorization req = None \<or> authorization req = Some []"
  then show "authenticateToken S e now req =
      Respond (reply UNAUTHORIZED (Message ''Missing Authorization header''))"
    by (rule authenticateToken_missing)
next
  assume "authorization req = Some h \<and> h \<noteq> [] \<and>
       (element (js_split CHR '' '' h) 0 \<noteq> Some ''Bearer''
        \<or> element (js_split CHR '' '' h) 1 = None
        \<or> element (js_split CHR '' '' h) 1 = Some [])"
  then show "authenticateToken S e now req =
      Respond (reply UNAUTHORIZED (Message ''Invalid Authorization header format''))"
    using authenticateToken_malformed [of req h S e now] by blast
next
  fix err
  assume b: "authorization req = Some (''Bearer '' @ tok) \<and> tok \<noteq> [] \<and> CHR '' '' \<notin> set tok \<and>
       ACCESS_TOKEN_SECRET e = Some ak \<and> ak \<noteq> []"
    and v: "jwt_verify S tok ak now = Inl err"
  from b have "authenticateToken S e now req =
    (case jwt_verify S tok ak now of Inl err \<Rightarrow> Throw (JwtError err) | Inr c \<Rightarrow> Next (sub c))"
    by (intro authenticateToken_bearer) simp_all
  with v show "authenticateToken S e now req = Throw (JwtError err)"
    and "answered (authenticateToken S e now req) = None" by simp_all
next
  fix c
  assume b: "authorization req = Some (''Bearer '' @ tok) \<and> tok \<noteq> [] \<and> CHR '' '' \<notin> set tok \<and>
       ACCESS_TOKEN_SECRET e = Some ak \<and> ak \<noteq> []"
    and v: "jwt_verify S tok ak now = Inr c"
  from b have "authenticateToken S e now req =
    (case jwt_verify S tok ak now of Inl err \<Rightarrow> Throw (JwtError err) | Inr c \<Rightarrow> Next (sub c))"
    by (intro authenticateToken_bearer) simp_all
  with v show "authenticateToken S e now req = Next (sub c)" by simp
qed

lemmas mw_sample_defs = sample_signer_def ledger_signer_def claims_def sample_env_def with_header_def

theorem authenticateToken_outcomes_witness:
  "authenticateToken sample_signer sample_env 100 (with_header None) =
     Respond (reply UNAUTHORIZED (Message ''Missing Authorization header''))
   \<and> authenticateToken sample_signer sample_env 100 (with_header (Some ''Basic YWxpY2U6cHc='')) =
     Respond (reply UNAUTHORIZED (Message ''Invalid Authorization header format''))
   \<and> authenticateToken sample_signer sample_env 100 (with_header (Some ''Bearer'')) =
     Respond (reply UNAUTHORIZED (Message ''Invalid Authorization header format''))
   \<and> authenticateToken sample_signer sample_env 100 (with_header (Some ''Bearer jwt.u1.a0.xx'')) =
     Throw (JwtError JsonWebTokenError)
   \<and> authenticateToken sample_signer sample_env 100 (with_header (Some ''Bearer jwt.u1.a0.ak'')) =
     Next ''u1''"
proof -
  let ?S = sample_signer and ?e = sample_env
  have a: "authenticateToken ?S ?e 100 (with_header None) =
     Respond (reply UNAUTHORIZED (Message ''Missing Authorization header''))"
    using authenticateToken_outcomes [of "with_header None" ?S ?e 100]
    by (simp add: with_header_def)
  have b: "authenticateToken ?S ?e 100 (with_header (Some ''Basic YWxpY2U6cHc='')) =
     Respond (reply UNAUTHORIZED (Message ''Invalid Authorization header format''))"
    using authenticateToken_outcomes [of "with_header (Some ''Basic YWxpY2U6cHc='')" ?S ?e 100
        "''Basic YWxpY2U6cHc=''"]
    by (simp add: with_header_def)
  have c: "authenticateToken ?S ?e 100 (with_header (Some ''Bearer'')) =
     Respond (reply UNAUTHORIZED (Message ''Invalid Authorization header format''))"
    using authenticateToken_outcomes [of "with_header (Some ''Bearer'')" ?S ?e 100 "''Bearer''"]
    by (simp add: with_header_def)
  have d: "authenticateToken ?S ?e 100 (with_header (Some ''Bearer jwt.u1.a0.xx'')) =
     Throw (JwtError JsonWebTokenError)"
    using authenticateToken_outcomes [of "with_header (Some ''Bearer jwt.u1.a0.xx'')" ?S ?e 100
        _ "''jwt.u1.a0.xx''" "''ak''"]
    by (simp add: mw_sample_defs)
  have e: "authenticateToken ?S ?e 100 (with_header (Some ''Bearer jwt.u1.a0.ak'')) = Next ''u1''"
    using authenticateToken_outcomes [of "with_header (Some ''Bearer jwt.u1.a0.ak'')" ?S ?e 100
        _ "''jwt.u1.a0.ak''" "''ak''"]
    by (simp add: mw_sample_defs)
  from a b c d e show ?thesis by simp
qed

text \<open>C7 as stated fails: a Bearer token with a bad signature and an expired one both make the
  middleware throw; it answers nothing, so no 401.\<close>

theorem authenticateToken_bad_token_throws:
  "authenticateToken sample_signer sample_env 100 (with_header (Some ''Bearer jwt.u1.a0.xx''))
     = Throw (JwtError JsonWebTokenError)
   \<and> answered (authenticateToken sample_signer sample_env 100
        (with_header (Some ''Bearer jwt.u1.a0.xx''))) \<noteq> Some UNAUTHORIZED
   \<and> authenticateToken sample_signer sample_env 900 (with_header (Some ''Bearer jwt.u1.a0.ak''))
     = Throw (JwtError TokenExpiredError)
   \<and> answered (authenticateToken sample_signer sample_env 900
        (with_header (Some ''Bearer jwt.u1.a0.ak''))) \<noteq> Some UNAUTHORIZED"
  by (simp add: authenticateToken_def mw_sample_defs Let_def unset_def)

section \<open>Logout\<close>

lemma logout_no_token:
  assumes "typeof (cookies_refreshToken req) \<noteq> ''string'' \<or> cookies_refreshToken req = JStr []"
  shows "logout S e d req db = (Sent (reply BAD_REQUEST NoContent), db)"
  using assms by (cases "cookies_refreshToken req") (auto simp: logout_def)

lemma logout_secret_unset:
  assumes "cookies_refreshToken req = JStr tok" "tok \<noteq> []"
    and "unset (REFRESH_TOKEN_SECRET e)"
  shows "logout S e d req db =
    (Sent (reply INTERNAL_SERVER_ERROR (Message ''Server misconfigured'')), db)"
  using assms by (simp add: logout_def)

lemma logout_verify_throws:
  assumes "cookies_refreshToken req = JStr tok" "tok \<noteq> []"
    and "REFRESH_TOKEN_SECRET e = Some rk" "rk \<noteq> []"
    and "jwt_verify S tok rk (clock d) = Inl err"
  shows "logout S e d req db = (Rejected (JwtError err), db)"
  using assms by (simp add: logout_def)

lemma logout_no_record:
  assumes "cookies_refreshToken req = JStr tok" "tok \<noteq> []"
    and "REFRESH_TOKEN_SECRET e = Some rk" "rk \<noteq> []"
    and "jwt_verify S tok rk (clock d) = Inr c"
    and "findRefreshTokenByUserId (sub c) db = None"
  shows "logout S e d req db = (Sent (reply INTERNAL_SERVER_ERROR NoContent), db)"
  using assms
  by (simp add: logout_def Let_def deleteRefreshTokenByUserId_def findRefreshTokenByUserId_def)

lemma logout_deletes:
  assumes "cookies_refreshToken req = JStr tok" "tok \<noteq> []"
    and "REFRESH_TOKEN_SECRET e = Some rk" "rk \<noteq> []"
    and "jwt_verify S tok rk (clock d) = Inr c"
    and "findRefreshTokenByUserId (sub c) db = Some row"
  shows "logout S e d req db =
    ((case findUserById (sub c) db of
        None \<Rightarrow> Sent (reply INTERNAL_SERVER_ERROR NoContent)
      | Some u \<Rightarrow>
          Sent \<lparr>status = NO_CONTENT, content = NoContent, cookie = ClearRefreshCookie\<rparr>),
     db\<lparr>refreshTokens := filter (\<lambda>r. rt_userId r \<noteq> sub c) (refreshTokens db)\<rparr>)"
  using assms
  by (simp add: logout_def Let_def deleteRefreshTokenByUserId_def findRefreshTokenByUserId_def
      findUserById_def split: option.split)

text \<open>
  C9 (as amended).  Without a non-empty string in the \<^verbatim>\<open>refreshToken\<close> cookie, logout answers
  400 and changes nothing.  Otherwise, with the refresh secret configured, the only check on
  the token is \<^verbatim>\<open>jwt.verify\<close>, and what logout does depends on its verdict and on the
  subject's stored record alone:
  \<^item> when \<^verbatim>\<open>jwt.verify\<close> throws (a bad signature, or a correctly signed token that has
    expired), the handler rejects with that exception, sends no response and deletes
    nothing;
  \<^item> when the token verifies and its subject has no stored record, logout answers 500 and
    changes nothing;
  \<^item> when the token verifies and its subject has a stored record, logout removes that
    record, whatever hash and jti it holds (neither is compared with the token, so a token
    that was rotated out still logs the user out), and, the user's row being there, clears
    the cookie and answers 204.
\<close>

theorem logout_checks_signature_only:
  "(typeof (cookies_refreshToken req) \<noteq> ''string'' \<or> cookies_refreshToken req = JStr [] \<longrightarrow>
      logout S e d req db = (Sent (reply BAD_REQUEST NoContent), db))
   \<and> (cookies_refreshToken req = JStr tok \<and> tok \<noteq> [] \<and>
       REFRESH_TOKEN_SECRET e = Some rk \<and> rk \<noteq> [] \<longrightarrow>
      (case jwt_verify S tok rk (clock d) of
         Inl err \<Rightarrow> logout S e d req db = (Rejected (JwtError err), db)
       | Inr c \<Rightarrow>
          (case findRefreshTokenByUserId (sub c) db of
             None \<Rightarrow> logout S e d req db = (Sent (reply INTERNAL_SERVER_ERROR NoContent), db)
           | Some row \<Rightarrow>
               snd (logout S e d req db) =
                 db\<lparr>refreshTokens := filter (\<lambda>r. rt_userId r \<noteq> sub c) (refreshTokens db)\<rparr>
               \<and> findRefreshTokenByUserId (sub c) (snd (logout S e d req db)) = None
               \<and> fst (logout S e d req db) =
                  (case findUserById (sub c) db of
                     None \<Rightarrow> Sent (reply INTERNAL_SERVER_ERROR NoContent)
                   | Some u \<Rightarrow>
                       Sent \<lparr>status = NO_CONTENT, content = NoContent,
                             cookie = ClearRefreshCookie\<rparr>))))"
proof (intro conjI impI)
  assume "typeof (cookies_refreshToken req) \<noteq> ''string'' \<or> cookies_refreshToken req = JStr []"
  then show "logout S e d req db = (Sent (reply BAD_REQUEST NoContent), db)"
    by (rule logout_no_token)
next
  assume a: "cookies_refreshToken req = JStr tok \<and> tok \<noteq> [] \<and>
       REFRESH_TOKEN_SECRET e = Some rk \<and> rk \<noteq> []"
  then have t: "cookies_refreshToken req = JStr tok" "tok \<noteq> []"
      "REFRESH_TOKEN_SECRET e = Some rk" "rk \<noteq> []"
    by simp_all
  show "case jwt_verify S tok rk (clock d) of
         Inl err \<Rightarrow> logout S e d req db = (Rejected (JwtError err), db)
       | Inr c \<Rightarrow>
          (case findRefreshTokenByUserId (sub c) db of
             None \<Rightarrow> logout S e d req db = (Sent (reply INTERNAL_SERVER_ERROR NoContent), db)
           | Some row \<Rightarrow>
               snd (logout S e d req db) =
                 db\<lparr>refreshTokens := filter (\<lambda>r. rt_userId r \<noteq> sub c) (refreshTokens db)\<rparr>
               \<and> findRefreshTokenByUserId (sub c) (snd (logout S e d req db)) = None
               \<and> fst (logout S e d req db) =
                  (case findUserById (sub c) db of
                     None \<Rightarrow> Sent (reply INTERNAL_SERVER_ERROR NoContent)
                   | Some u \<Rightarrow>
                       Sent \<lparr>status = NO_CONTENT, content = NoContent,
                             cookie = ClearRefreshCookie\<rparr>))"
  proof (cases "jwt_verify S tok rk (clock d)")
    case (Inl err)
    from logout_verify_throws [OF t Inl] Inl show ?thesis by simp
  next
    case (Inr c)
    show ?thesis
    proof (cases "findRefreshTokenByUserId (sub c) db")
      case None
      from logout_no_record [OF t Inr None] Inr None show ?thesis by simp
    next
      case (Some row)
      have gone: "find (\<lambda>r. rt_userId r = sub c)
          (filter (\<lambda>r. rt_userId r \<noteq> sub c) (refreshTokens db)) = None"
        by (simp add: find_None_iff)
      from logout_deletes [OF t Inr Some] gone Inr Some show ?thesis
        by (simp add: findRefreshTokenByUserId_def)
    qed
  qed
qed

lemmas logout_sample_defs = sample_signer_def ledger_signer_def claims_def sample_env_def
  sample_db_def alice_def bob_def alice_session_def at_time_def with_cookie_def rotated_db_def
  findRefreshTokenByUserId_def findUserById_def

theorem logout_checks_signature_only_witness:
  "logout sample_signer sample_env (at_time 200 ''a2'' ''j2'') (with_cookie JUndefined) rotated_db =
     (Sent (reply BAD_REQUEST NoContent), rotated_db)
   \<and> rt_hash (hd (refreshTokens rotated_db)) = ''$jwt.u1.j1.rk''
   \<and> logout sample_signer sample_env (at_time 200 ''a2'' ''j2'')
       (with_cookie (JStr ''jwt.u1.j0.rk'')) rotated_db =
     (Sent \<lparr>status = NO_CONTENT, content = NoContent, cookie = ClearRefreshCookie\<rparr>,
      rotated_db\<lparr>refreshTokens := []\<rparr>)
   \<and> logout sample_signer sample_env (at_time 200 ''a2'' ''j2'')
       (with_cookie (JStr ''jwt.u1.j0.xx'')) rotated_db =
     (Rejected (JwtError JsonWebTokenError), rotated_db)
   \<and> logout sample_signer sample_env (at_time 200 ''a2'' ''j2'')
       (with_cookie (JStr ''jwt.u2.j9.rk'')) rotated_db =
     (Sent (reply INTERNAL_SERVER_ERROR NoContent), rotated_db)"
proof -
  let ?S = sample_signer and ?e = sample_env and ?d = "at_time 200 ''a2'' ''j2''"
  have a: "logout ?S ?e ?d (with_cookie JUndefined) rotated_db =
     (Sent (reply BAD_REQUEST NoContent), rotated_db)"
    using logout_checks_signature_only [of "with_cookie JUndefined" ?S ?e ?d rotated_db]
    by (simp add: with_cookie_def)
  have b: "logout ?S ?e ?d (with_cookie (JStr ''jwt.u1.j0.rk'')) rotated_db =
     (Sent \<lparr>status = NO_CONTENT, content = NoContent, cookie = ClearRefreshCookie\<rparr>,
      rotated_db\<lparr>refreshTokens := []\<rparr>)"
    using logout_checks_signature_only [of "with_cookie (JStr ''jwt.u1.j0.rk'')" ?S ?e ?d rotated_db
        "''jwt.u1.j0.rk''" "''rk''"]
    by (simp add: logout_sample_defs prod_eq_iff)
  have c: "rt_hash (hd (refreshTokens rotated_db)) = ''$jwt.u1.j1.rk''"
    by (simp add: rotated_db_def)
  have x: "logout ?S ?e ?d (with_cookie (JStr ''jwt.u1.j0.xx'')) rotated_db =
     (Rejected (JwtError JsonWebTokenError), rotated_db)"
    using logout_checks_signature_only [of "with_cookie (JStr ''jwt.u1.j0.xx'')" ?S ?e ?d rotated_db
        "''jwt.u1.j0.xx''" "''rk''"]
    by (simp add: logout_sample_defs)
  have y: "logout ?S ?e ?d (with_cookie (JStr ''jwt.u2.j9.rk'')) rotated_db =
     (Sent (reply INTERNAL_SERVER_ERROR NoContent), rotated_db)"
    using logout_checks_signature_only [of "with_cookie (JStr ''jwt.u2.j9.rk'')" ?S ?e ?d rotated_db
        "''jwt.u2.j9.rk''" "''rk''"]
    by (simp add: logout_sample_defs)
  from a b c x y show ?thesis by simp
qed

text \<open>C9 as stated fails: a correctly signed refresh token of user \<^verbatim>\<open>u1\<close> that has expired
  deletes nothing and gets no response at all, the handler rejecting with
  \<^verbatim>\<open>TokenExpiredError\<close>; and a correctly signed, unexpired refresh token of user \<^verbatim>\<open>u2\<close>, who
  has no stored record, is answered 500.\<close>

theorem logout_signed_token_not_204:
  "jwt_verify sample_signer ''jwt.u1.j0.rk'' ''rk'' 200 = Inr (claims ''u1'' ''j0'' 0 604800)
   \<and> logout sample_signer sample_env (at_time 604800 ''a2'' ''j2'')
       (with_cookie (JStr ''jwt.u1.j0.rk'')) sample_db =
     (Rejected (JwtError TokenExpiredError), sample_db)
   \<and> jwt_verify sample_signer ''jwt.u2.j9.rk'' ''rk'' 200 = Inr (claims ''u2'' ''j9'' 0 604800)
   \<and> logout sample_signer sample_env (at_time 200 ''a2'' ''j2'')
       (with_cookie (JStr ''jwt.u2.j9.rk'')) sample_db =
     (Sent (reply INTERNAL_SERVER_ERROR NoContent), sample_db)"
  by (simp add: logout_def deleteRefreshTokenByUserId_def Let_def logout_sample_defs)

section \<open>Job applications: who may change what\<close>












section \<open>Token round trip\<close>

text \<open>
  C8.  With the reference signer, an access or refresh token issued for \<^verbatim>\<open>{sub, jti}\<close> under
  a secret verifies under the same secret, until its expiry (15 minutes, 7 days), to claims
  with the same subject and jti; under any other secret verification fails with
  \<^verbatim>\<open>JsonWebTokenError\<close>, at every time.
\<close>

theorem token_round_trip:
  "(now' < now + 15 * 60 \<longrightarrow>
      (\<exists>c. jwt_verify jsonwebtoken
             (generateAccessToken jsonwebtoken (createJwtPayload s j) secret now) secret now' = Inr c
           \<and> sub c = s \<and> jti c = j))
   \<and> (now' < now + 7 * 24 * 60 * 60 \<longrightarrow>
      (\<exists>c. jwt_verify jsonwebtoken
             (generateRefreshToken jsonwebtoken (createJwtPayload s j) secret now) secret now' = Inr c
           \<and> sub c = s \<and> jti c = j))
   \<and> (other \<noteq> secret \<longrightarrow>
        jwt_verify jsonwebtoken
          (generateAccessToken jsonwebtoken (createJwtPayload s j) secret now) other now'
          = Inl JsonWebTokenError
      \<and> jwt_verify jsonwebtoken
          (generateRefreshToken jsonwebtoken (createJwtPayload s j) secret now) other now'
          = Inl JsonWebTokenError)"
  by (simp add: jsonwebtoken_def generateAccessToken_def generateRefreshToken_def
      createJwtPayload_def Let_def)

theorem token_round_trip_witness:
  "jwt_verify jsonwebtoken
     (generateAccessToken jsonwebtoken (createJwtPayload ''u1'' ''a1'') ''ak'' 100) ''ak'' 999
     = Inr \<lparr>sub = ''u1'', jti = ''a1'', iat = 100, exp = 1000\<rparr>
   \<and> jwt_verify jsonwebtoken
     (generateRefreshToken jsonwebtoken (createJwtPayload ''u1'' ''j1'') ''rk'' 100) ''rk'' 604899
     = Inr \<lparr>sub = ''u1'', jti = ''j1'', iat = 100, exp = 604900\<rparr>
   \<and> jwt_verify jsonwebtoken
     (generateAccessToken jsonwebtoken (createJwtPayload ''u1'' ''a1'') ''ak'' 100) ''rk'' 999
     = Inl JsonWebTokenError
   \<and> jwt_verify jsonwebtoken
     (generateRefreshToken jsonwebtoken (createJwtPayload ''u1'' ''j1'') ''rk'' 100) ''ak'' 999
     = Inl JsonWebTokenError"
  using token_round_trip [of 999 100 "''u1''" "''a1''" "''ak''" "''rk''"]
    token_round_trip [of 604899 100 "''u1''" "''j1''" "''rk''" "''ak''"]
  by (simp add: jsonwebtoken_def generateAccessToken_def generateRefreshToken_def
      createJwtPayload_def Let_def)

section \<open>Rotation\<close>

lemma find_map_rewrite:
  "find (\<lambda>r. rt_userId r = uid)
      (map (\<lambda>r. if rt_userId r = uid then r\<lparr>rt_hash := h, rt_jti := j\<rparr> else r) rows)
   = map_option (\<lambda>r. r\<lparr>rt_hash := h, rt_jti := j\<rparr>) (find (\<lambda>r. rt_userId r = uid) rows)"
  by (induction rows) auto

lemma update_result:
  assumes "updateHashOfRefreshTokenByUserId uid h j db = Inr db1"
  shows "\<exists>row. findRefreshTokenByUserId uid db = Some row
     \<and> findRefreshTokenByUserId uid db1 = Some (row\<lparr>rt_hash := h, rt_jti := j\<rparr>)"
    and "users db1 = users db"
    and "map rt_userId (refreshTokens db1) = map rt_userId (refreshTokens db)"
proof -
  from assms obtain row where
    row: "find (\<lambda>r. rt_userId r = uid) (refreshTokens db) = Some row"
    and db1: "db1 = db\<lparr>refreshTokens :=
        map (\<lambda>r. if rt_userId r = uid then r\<lparr>rt_hash := h, rt_jti := j\<rparr> else r)
          (refreshTokens db)\<rparr>"
    by (auto simp: updateHashOfRefreshTokenByUserId_def split: option.splits if_splits)
  from row db1 show "\<exists>row. findRefreshTokenByUserId uid db = Some row
     \<and> findRefreshTokenByUserId uid db1 = Some (row\<lparr>rt_hash := h, rt_jti := j\<rparr>)"
    by (simp add: findRefreshTokenByUserId_def find_map_rewrite)
  from db1 show "users db1 = users db" by simp
  from db1 show "map rt_userId (refreshTokens db1) = map rt_userId (refreshTokens db)"
    by (simp add: comp_def if_distrib cong: if_cong)
qed

lemma refresh_OK_db:
  assumes ok: "status (fst (refresh S H e d req db)) = OK"
    and tok: "cookies_refreshToken req = JStr tok"
    and rk: "REFRESH_TOKEN_SECRET e = Some rk"
    and c: "jwt_verify S tok rk (clock d) = Inr c"
  shows "updateHashOfRefreshTokenByUserId (sub c)
           (bcrypt_hash H (salt_1 d) 10
              (generateRefreshToken S (createJwtPayload (sub c) (uuid_2 d)) rk (clock d)))
           (uuid_2 d) db = Inr (snd (refresh S H e d req db))"
proof -
  from refresh_OK_D [OF ok] tok rk c obtain ak row where
    f: "tok \<noteq> []" "rk \<noteq> []" "ACCESS_TOKEN_SECRET e = Some ak" "ak \<noteq> []"
       "findRefreshTokenByUserId (sub c) db = Some row"
       "bcrypt_compare H tok (rt_hash row)" "jti c = rt_jti row"
    by auto
  note m = refresh_match [OF tok f(1) rk f(2) f(3) f(4) c f(5) f(6) f(7)]
  show ?thesis
  proof (cases "updateHashOfRefreshTokenByUserId (sub c)
           (bcrypt_hash H (salt_1 d) 10
              (generateRefreshToken S (createJwtPayload (sub c) (uuid_2 d)) rk (clock d)))
           (uuid_2 d) db")
    case (Inl x)
    with m ok show ?thesis by (simp add: Let_def reply_def)
  next
    case (Inr db1)
    with m show ?thesis by (simp add: Let_def split: option.split)
  qed
qed

text \<open>
  C2 (as amended).  Let a refresh call with token \<open>tok\<close> succeed, drawing for the new refresh
  token a jti other than the token's own, and let the same cookie be presented again on
  the database that call left.  While \<^verbatim>\<open>jwt.verify\<close> still accepts the token, with the same
  subject and jti, the second call is answered 403 and changes nothing; once
  \<^verbatim>\<open>jwt.verify\<close> rejects it, as it does after the expiry, the second call is answered 500.
  The stored record holds the hash of the new refresh token and the new jti; whenever the
  hasher accepts nothing but the string it hashed and the new token differs from the old
  one, the hash comparison of the old token against the stored hash is false.
\<close>

theorem rotated_token_is_refused:
  assumes first: "refresh S H e d req db = (r, db1)" and ok: "status r = OK"
    and tok: "cookies_refreshToken req = JStr tok"
    and rk: "REFRESH_TOKEN_SECRET e = Some rk"
    and c: "jwt_verify S tok rk (clock d) = Inr c"
    and fresh: "uuid_2 d \<noteq> jti c"
  shows "(\<forall>d' c'. jwt_verify S tok rk (clock d') = Inr c' \<and> sub c' = sub c \<and> jti c' = jti c
           \<longrightarrow> refresh S H e d' req db1 =
                (reply FORBIDDEN (Message ''The refresh token is not valid''), db1))
    \<and> (\<forall>d' err. jwt_verify S tok rk (clock d') = Inl err
           \<longrightarrow> refresh S H e d' req db1 = (reply INTERNAL_SERVER_ERROR NoContent, db1))
    \<and> (\<exists>row. findRefreshTokenByUserId (sub c) db1 = Some row
         \<and> rt_hash row = bcrypt_hash H (salt_1 d) 10
              (generateRefreshToken S (createJwtPayload (sub c) (uuid_2 d)) rk (clock d))
         \<and> rt_jti row = uuid_2 d
         \<and> ((\<forall>x salt s. bcrypt_compare H x (bcrypt_hash H salt 10 s) \<longrightarrow> x = s)
              \<and> tok \<noteq> generateRefreshToken S (createJwtPayload (sub c) (uuid_2 d)) rk (clock d)
            \<longrightarrow> \<not> bcrypt_compare H tok (rt_hash row)))"
proof -
  let ?new = "generateRefreshToken S (createJwtPayload (sub c) (uuid_2 d)) rk (clock d)"
  from first ok have ok': "status (fst (refresh S H e d req db)) = OK"
    and db1: "snd (refresh S H e d req db) = db1" by simp_all
  from refresh_OK_D [OF ok'] tok rk obtain ak where
    f: "tok \<noteq> []" "rk \<noteq> []" "ACCESS_TOKEN_SECRET e = Some ak" "ak \<noteq> []"
    by auto
  from refresh_OK_db [OF ok' tok rk c] db1
  have upd: "updateHashOfRefreshTokenByUserId (sub c) (bcrypt_hash H (salt_1 d) 10 ?new)
      (uuid_2 d) db = Inr db1" by simp
  from update_result(1) [OF upd] obtain row0 where
    row: "findRefreshTokenByUserId (sub c) db1 =
      Some (row0\<lparr>rt_hash := bcrypt_hash H (salt_1 d) 10 ?new, rt_jti := uuid_2 d\<rparr>)"
    by blast
  let ?row = "row0\<lparr>rt_hash := bcrypt_hash H (salt_1 d) 10 ?new, rt_jti := uuid_2 d\<rparr>"
  have second: "refresh S H e d' req db1 =
      (reply FORBIDDEN (Message ''The refresh token is not valid''), db1)"
    if again: "jwt_verify S tok rk (clock d') = Inr c' \<and> sub c' = sub c \<and> jti c' = jti c"
    for d' c'
  proof -
    from again have v: "jwt_verify S tok rk (clock d') = Inr c'" by simp
    from row again have row': "findRefreshTokenByUserId (sub c') db1 = Some ?row" by simp
    from fresh again
    have "\<not> bcrypt_compare H tok (rt_hash ?row) \<or> jti c' \<noteq> rt_jti ?row" by simp
    from refresh_mismatch [OF tok f(1) rk f(2) f(3) f(4) v row' this] show ?thesis .
  qed
  have expired: "refresh S H e d' req db1 = (reply INTERNAL_SERVER_ERROR NoContent, db1)"
    if "jwt_verify S tok rk (clock d') = Inl err" for d' err
    using refresh_verify_throws [OF tok f(1) rk f(2) that] .
  have hashes: "(\<forall>x salt s. bcrypt_compare H x (bcrypt_hash H salt 10 s) \<longrightarrow> x = s) \<and> tok \<noteq> ?new
      \<longrightarrow> \<not> bcrypt_compare H tok (rt_hash ?row)"
    by auto
  from second have A: "\<forall>d' c'. jwt_verify S tok rk (clock d') = Inr c' \<and> sub c' = sub c
      \<and> jti c' = jti c
      \<longrightarrow> refresh S H e d' req db1 =
            (reply FORBIDDEN (Message ''The refresh token is not valid''), db1)"
    by blast
  from expired have B: "\<forall>d' err. jwt_verify S tok rk (clock d') = Inl err
      \<longrightarrow> refresh S H e d' req db1 = (reply INTERNAL_SERVER_ERROR NoContent, db1)"
    by blast
  from row hashes have C: "\<exists>row. findRefreshTokenByUserId (sub c) db1 = Some row
         \<and> rt_hash row = bcrypt_hash H (salt_1 d) 10 ?new
         \<and> rt_jti row = uuid_2 d
         \<and> ((\<forall>x salt s. bcrypt_compare H x (bcrypt_hash H salt 10 s) \<longrightarrow> x = s)
              \<and> tok \<noteq> ?new
            \<longrightarrow> \<not> bcrypt_compare H tok (rt_hash row))"
    by simp
  from A B C show ?thesis by (intro conjI)
qed

lemmas rotation_sample_defs = sample_signer_def ledger_signer_def claims_def sample_hasher_def
  sample_env_def sample_db_def alice_def bob_def alice_session_def at_time_def with_cookie_def
  rotated_db_def findRefreshTokenByUserId_def generateAccessToken_def generateRefreshToken_def
  createJwtPayload_def updateHashOfRefreshTokenByUserId_def findUserById_def

theorem rotated_token_is_refused_witness:
  "refresh sample_signer sample_hasher sample_env (at_time 300 ''a2'' ''j2'')
      (with_cookie (JStr ''jwt.u1.j0.rk'')) rotated_db =
     (reply FORBIDDEN (Message ''The refresh token is not valid''), rotated_db)
   \<and> refresh sample_signer sample_hasher sample_env (at_time 604800 ''a2'' ''j2'')
      (with_cookie (JStr ''jwt.u1.j0.rk'')) rotated_db =
     (reply INTERNAL_SERVER_ERROR NoContent, rotated_db)
   \<and> \<not> bcrypt_compare sample_hasher ''jwt.u1.j0.rk'' ''$jwt.u1.j1.rk''"
proof -
  let ?S = sample_signer and ?H = sample_hasher and ?e = sample_env
  let ?d = "at_time 100 ''a1'' ''j1''" and ?d' = "at_time 300 ''a2'' ''j2''"
  let ?late = "at_time 604800 ''a2'' ''j2''"
  let ?req = "with_cookie (JStr ''jwt.u1.j0.rk'')"
  let ?r = "\<lparr>status = OK, content = TokenPair ''jwt.u1.a1.ak'' ''jwt.u1.j1.rk'',
     cookie = SetRefreshCookie ''jwt.u1.j0.rk''\<rparr>"
  let ?c = "claims ''u1'' ''j0'' 0 604800"
  let ?new = "generateRefreshToken ?S (createJwtPayload (sub ?c) (uuid_2 ?d)) ''rk'' (clock ?d)"
  have 1: "refresh ?S ?H ?e ?d ?req sample_db = (?r, rotated_db)"
    by (simp add: refresh_def rotation_sample_defs Let_def)
  have 2: "status ?r = OK" by simp
  have 3: "cookies_refreshToken ?req = JStr ''jwt.u1.j0.rk''" by (simp add: with_cookie_def)
  have 4: "REFRESH_TOKEN_SECRET ?e = Some ''rk''" by (simp add: sample_env_def)
  have 5: "jwt_verify ?S ''jwt.u1.j0.rk'' ''rk'' (clock ?d) = Inr ?c"
    by (simp add: rotation_sample_defs)
  have 6: "jwt_verify ?S ''jwt.u1.j0.rk'' ''rk'' (clock ?d') = Inr ?c \<and> sub ?c = sub ?c
      \<and> jti ?c = jti ?c"
    by (simp add: rotation_sample_defs)
  have 7: "uuid_2 ?d \<noteq> jti ?c" by (simp add: at_time_def claims_def)
  have 8: "jwt_verify ?S ''jwt.u1.j0.rk'' ''rk'' (clock ?late) = Inl TokenExpiredError"
    by (simp add: rotation_sample_defs)
  have sound: "\<forall>x salt s. bcrypt_compare ?H x (bcrypt_hash ?H salt 10 s) \<longrightarrow> x = s"
    by (simp add: sample_hasher_def)
  have differ: "''jwt.u1.j0.rk'' \<noteq> ?new"
    by (simp add: rotation_sample_defs)
  note t = rotated_token_is_refused [OF 1 2 3 4 5 7]
  from t [THEN conjunct1, rule_format, OF 6]
  have a: "refresh ?S ?H ?e ?d' ?req rotated_db =
      (reply FORBIDDEN (Message ''The refresh token is not valid''), rotated_db)" .
  from t [THEN conjunct2, THEN conjunct1, rule_format, OF 8]
  have b: "refresh ?S ?H ?e ?late ?req rotated_db =
      (reply INTERNAL_SERVER_ERROR NoContent, rotated_db)" .
  from t [THEN conjunct2, THEN conjunct2]
  obtain row where r: "findRefreshTokenByUserId (sub ?c) rotated_db = Some row
      \<and> rt_hash row = bcrypt_hash ?H (salt_1 ?d) 10 ?new
      \<and> rt_jti row = uuid_2 ?d
      \<and> ((\<forall>x salt s. bcrypt_compare ?H x (bcrypt_hash ?H salt 10 s) \<longrightarrow> x = s)
        \<and> ''jwt.u1.j0.rk'' \<noteq> ?new
      \<longrightarrow> \<not> bcrypt_compare ?H ''jwt.u1.j0.rk'' (rt_hash row))" ..
  from r have h: "rt_hash row = bcrypt_hash ?H (salt_1 ?d) 10 ?new"
    by (elim conjE)
  from r have i: "(\<forall>x salt s. bcrypt_compare ?H x (bcrypt_hash ?H salt 10 s) \<longrightarrow> x = s)
        \<and> ''jwt.u1.j0.rk'' \<noteq> ?new
      \<longrightarrow> \<not> bcrypt_compare ?H ''jwt.u1.j0.rk'' (rt_hash row)"
    by (elim conjE)
  from sound differ
  have "(\<forall>x salt s. bcrypt_compare ?H x (bcrypt_hash ?H salt 10 s) \<longrightarrow> x = s)
        \<and> ''jwt.u1.j0.rk'' \<noteq> ?new" ..
  with i have n: "\<not> bcrypt_compare ?H ''jwt.u1.j0.rk'' (rt_hash row)" by (rule mp)
  from h have "rt_hash row = ''$jwt.u1.j1.rk''" by (simp add: rotation_sample_defs)
  with a b n show ?thesis by simp
qed

text \<open>C2 as stated fails: the token accepted at time 100 is presented again after its
  expiry, and the second call is answered 500, not 403.\<close>

theorem rotated_token_after_expiry:
  "status (fst (refresh sample_signer sample_hasher sample_env (at_time 100 ''a1'' ''j1'')
       (with_cookie (JStr ''jwt.u1.j0.rk'')) sample_db)) = OK
   \<and> snd (refresh sample_signer sample_hasher sample_env (at_time 100 ''a1'' ''j1'')
       (with_cookie (JStr ''jwt.u1.j0.rk'')) sample_db) = rotated_db
   \<and> status (fst (refresh sample_signer sample_hasher sample_env (at_time 604800 ''a2'' ''j2'')
       (with_cookie (JStr ''jwt.u1.j0.rk'')) rotated_db)) = INTERNAL_SERVER_ERROR
   \<and> status (fst (refresh sample_signer sample_hasher sample_env (at_time 604800 ''a2'' ''j2'')
       (with_cookie (JStr ''jwt.u1.j0.rk'')) rotated_db)) \<noteq> FORBIDDEN"
  by (simp add: refresh_def rotation_sample_defs Let_def reply_def)

section \<open>One session per user\<close>

lemma create_result:
  assumes "createRefreshToken h uid j d db = Inr db1"
  shows "users db1 = users db"
    and "refreshTokens db1 = refreshTokens db @
      [\<lparr>rt_id = new_row_id d, rt_hash = h, rt_jti = j, rt_userId = uid, rt_createdAt = clock d\<rparr>]"
    and "uid \<notin> rt_userId ` set (refreshTokens db)"
  using assms
  by (auto simp: createRefreshToken_def list_ex_iff split: if_splits)

lemma find_append_new:
  "find P xs = None \<Longrightarrow> P y \<Longrightarrow> find P (xs @ [y]) = Some y"
  by (induction xs) (auto split: if_splits)

lemma upsert_users:
  "upsertHashOfRefreshTokenByUserId uid h j d db = Inr db1 \<Longrightarrow> users db1 = users db"
  by (auto simp: upsertHashOfRefreshTokenByUserId_def split: option.splits
      dest: create_result(1) update_result(2))

lemma upsert_distinct:
  assumes "upsertHashOfRefreshTokenByUserId uid h j d db = Inr db1"
    and "distinct (map rt_userId (refreshTokens db))"
  shows "distinct (map rt_userId (refreshTokens db1))"
proof (cases "find (\<lambda>r. rt_userId r = uid) (refreshTokens db)")
  case None
  with assms(1) have c: "createRefreshToken h uid j d db = Inr db1"
    by (simp add: upsertHashOfRefreshTokenByUserId_def)
  from create_result(2,3) [OF c] assms(2) show ?thesis by simp
next
  case (Some row)
  with assms(1) have "updateHashOfRefreshTokenByUserId uid h j db = Inr db1"
    by (simp add: upsertHashOfRefreshTokenByUserId_def)
  from update_result(3) [OF this] assms(2) show ?thesis by simp
qed

lemma upsert_stored:
  assumes "upsertHashOfRefreshTokenByUserId uid h j d db = Inr db1"
  shows "\<exists>row. findRefreshTokenByUserId uid db1 = Some row \<and> rt_hash row = h \<and> rt_jti row = j"
proof (cases "find (\<lambda>r. rt_userId r = uid) (refreshTokens db)")
  case None
  with assms have c: "createRefreshToken h uid j d db = Inr db1"
    by (simp add: upsertHashOfRefreshTokenByUserId_def)
  from create_result(2) [OF c] None show ?thesis
    by (simp add: findRefreshTokenByUserId_def find_append_new)
next
  case (Some row)
  with assms have "updateHashOfRefreshTokenByUserId uid h j db = Inr db1"
    by (simp add: upsertHashOfRefreshTokenByUserId_def)
  from update_result(1) [OF this] show ?thesis by auto
qed

lemma one_row_per_key:
  "distinct (map f xs) \<Longrightarrow> find (\<lambda>x. f x = k) xs = Some y
     \<Longrightarrow> length (filter (\<lambda>x. f x = k) xs) = 1"
proof (induction xs)
  case Nil
  then show ?case by simp
next
  case (Cons x xs)
  show ?case
  proof (cases "f x = k")
    case True
    with Cons.prems(1) have "filter (\<lambda>x. f x = k) xs = []"
      by (force simp: filter_empty_conv image_iff)
    with True show ?thesis by simp
  next
    case False
    with Cons show ?thesis by simp
  qed
qed

lemma login_db_cases:
  "snd (login S H e d req db) = db
   \<or> (\<exists>uid h j. upsertHashOfRefreshTokenByUserId uid h j d db = Inr (snd (login S H e d req db)))"
  by (auto simp: login_def Let_def split: sum.splits option.splits)

lemma login_users: "users (snd (login S H e d req db)) = users db"
  using login_db_cases [of S H e d req db] by (auto dest: upsert_users)

lemma login_distinct:
  "distinct (map rt_userId (refreshTokens db))
     \<Longrightarrow> distinct (map rt_userId (refreshTokens (snd (login S H e d req db))))"
  using login_db_cases [of S H e d req db] by (auto dest: upsert_distinct)

lemma login_OK_D:
  assumes "status (fst (login S H e d req db)) = OK"
  shows "\<exists>m u rk ak.
     member (body req) ''email'' = JStr m \<and>
     findUserByEmail (JStr m) db = Inr (Some u) \<and>
     REFRESH_TOKEN_SECRET e = Some rk \<and> rk \<noteq> [] \<and>
     ACCESS_TOKEN_SECRET e = Some ak \<and> ak \<noteq> [] \<and>
     cookie (fst (login S H e d req db)) = SetRefreshCookie (issuedRefreshToken S rk (u_id u) d) \<and>
     upsertHashOfRefreshTokenByUserId (u_id u)
       (bcrypt_hash H (salt_1 d) 10 (issuedRefreshToken S rk (u_id u) d)) (uuid_2 d) d db
       = Inr (snd (login S H e d req db))"
proof -
  from assms have obj: "isObject (body req)"
    by (auto simp: login_def reply_def split: if_splits)
  from assms obj obtain u where
    found: "findUserByEmail (member (body req) ''email'') db = Inr (Some u)"
    by (cases "findUserByEmail (member (body req) ''email'') db")
      (auto simp: login_def reply_def Let_def split: option.splits)
  then obtain m where m: "member (body req) ''email'' = JStr m"
    by (cases "member (body req) ''email''") (auto simp: findUserByEmail_def)
  from assms obj found have pw:
    "compare H (member (body req) ''password'') (u_hashedPassword u) = Inr True"
    by (cases "compare H (member (body req) ''password'') (u_hashedPassword u)")
      (auto simp: login_def reply_def Let_def split: if_splits)
  from assms obj found pw
  have secrets: "\<not> (unset (ACCESS_TOKEN_SECRET e) \<or> unset (REFRESH_TOKEN_SECRET e))"
    by (auto simp: login_def reply_def Let_def)
  then obtain rk ak where
    rk: "REFRESH_TOKEN_SECRET e = Some rk" "rk \<noteq> []"
    and ak: "ACCESS_TOKEN_SECRET e = Some ak" "ak \<noteq> []"
    using not_unsetD by blast
  let ?tok = "issuedRefreshToken S rk (u_id u) d"
  let ?up = "upsertHashOfRefreshTokenByUserId (u_id u) (bcrypt_hash H (salt_1 d) 10 ?tok)
      (uuid_2 d) d db"
  have run: "login S H e d req db =
      (case ?up of
         Inl x \<Rightarrow> (reply INTERNAL_SERVER_ERROR NoContent, db)
       | Inr db1 \<Rightarrow>
           (\<lparr>status = OK,
             content = AccessToken
               (generateAccessToken S (createJwtPayload (u_id u) (uuid_1 d)) ak (clock d)),
             cookie = SetRefreshCookie ?tok\<rparr>, db1))"
    using obj found pw rk ak unfolding issuedRefreshToken_def by (simp add: login_def Let_def)
  with assms obtain db1 where up: "?up = Inr db1"
    by (cases ?up) (auto simp: reply_def)
  with run have "cookie (fst (login S H e d req db)) = SetRefreshCookie ?tok"
    and "?up = Inr (snd (login S H e d req db))" by simp_all
  with m found rk ak show ?thesis by auto
qed

lemma logins_append:
  "logins S H e (xs @ ys) db =
     (let (r1, db1) = logins S H e xs db;
          (r2, db2) = logins S H e ys db1
      in (r1 @ r2, db2))"
  by (induction xs arbitrary: db) (auto simp: Let_def split: prod.splits)

lemma logins_Cons_fst:
  "fst (logins S H e ((d, req) # rest) db) =
     fst (login S H e d req db) # fst (logins S H e rest (snd (login S H e d req db)))"
  by (simp add: Let_def case_prod_beta)

lemma logins_Cons_snd:
  "snd (logins S H e ((d, req) # rest) db) = snd (logins S H e rest (snd (login S H e d req db)))"
  by (simp add: Let_def case_prod_beta)

lemma logins_users: "users (snd (logins S H e calls db)) = users db"
proof (induction calls arbitrary: db)
  case Nil
  then show ?case by simp
next
  case (Cons call calls)
  obtain d req where call: "call = (d, req)" by (cases call)
  from Cons [of "snd (login S H e d req db)"] login_users [of S H e d req db]
  show ?case by (simp add: call logins_Cons_snd del: logins.simps)
qed

lemma logins_distinct:
  "distinct (map rt_userId (refreshTokens db))
     \<Longrightarrow> distinct (map rt_userId (refreshTokens (snd (logins S H e calls db))))"
proof (induction calls arbitrary: db)
  case Nil
  then show ?case by simp
next
  case (Cons call calls)
  obtain d req where call: "call = (d, req)" by (cases call)
  from Cons.IH [OF login_distinct [OF Cons.prems, of S H e d req]]
  show ?case by (simp add: call logins_Cons_snd del: logins.simps)
qed

lemma findUserByEmail_users:
  "users db1 = users db \<Longrightarrow> findUserByEmail v db1 = findUserByEmail v db"
  by (cases v) (simp_all add: findUserByEmail_def)

lemma logins_cookies:
  assumes "\<forall>r \<in> set (fst (logins S H e calls db)). status r = OK"
    and "\<forall>(d0, q) \<in> set calls. member (body q) ''email'' = JStr m"
    and "findUserByEmail (JStr m) db = Inr (Some u)"
    and "REFRESH_TOKEN_SECRET e = Some rk"
  shows "map cookie (fst (logins S H e calls db)) =
     map (\<lambda>(d0, q). SetRefreshCookie (issuedRefreshToken S rk (u_id u) d0)) calls"
  using assms
proof (induction calls arbitrary: db)
  case Nil
  then show ?case by simp
next
  case (Cons call calls)
  obtain d req where call: "call = (d, req)" by (cases call)
  let ?db1 = "snd (login S H e d req db)"
  from Cons.prems(1) have ok1: "status (fst (login S H e d req db)) = OK"
    and okr: "\<forall>r \<in> set (fst (logins S H e calls ?db1)). status r = OK"
    by (simp_all add: call logins_Cons_fst del: logins.simps)
  from Cons.prems(2) have em: "member (body req) ''email'' = JStr m"
    and emr: "\<forall>(d0, q) \<in> set calls. member (body q) ''email'' = JStr m"
    by (auto simp: call)
  from login_OK_D [OF ok1] em Cons.prems(3,4)
  have c1: "cookie (fst (login S H e d req db)) = SetRefreshCookie (issuedRefreshToken S rk (u_id u) d)"
    by auto
  have "findUserByEmail (JStr m) ?db1 = Inr (Some u)"
    using findUserByEmail_users [OF login_users] Cons.prems(3) by simp
  from Cons.IH [OF okr emr this Cons.prems(4)] c1
  show ?case by (simp add: call logins_Cons_fst del: logins.simps)
qed

lemma refresh_match_status:
  assumes "cookies_refreshToken req = JStr tok" "tok \<noteq> []"
    and "REFRESH_TOKEN_SECRET e = Some rk" "rk \<noteq> []"
    and "ACCESS_TOKEN_SECRET e = Some ak" "ak \<noteq> []"
    and "jwt_verify S tok rk (clock d) = Inr c"
    and "findRefreshTokenByUserId (sub c) db = Some row"
    and "bcrypt_compare H tok (rt_hash row)" "jti c = rt_jti row"
  shows "status (fst (refresh S H e d req db)) = OK
       \<or> status (fst (refresh S H e d req db)) = INTERNAL_SERVER_ERROR"
  unfolding refresh_match [OF assms]
  by (simp add: Let_def reply_def split: sum.split option.split)

lemma find_Some_mem: "find P xs = Some x \<Longrightarrow> x \<in> set xs"
  by (induction xs) (auto split: if_splits)

lemma upsert_succeeds:
  assumes "u \<in> set (users db)"
    and "\<forall>r \<in> set (refreshTokens db). rt_userId r \<noteq> u_id u \<longrightarrow> rt_hash r \<noteq> h \<and> rt_jti r \<noteq> j"
    and "findRefreshTokenByUserId (u_id u) db = None \<longrightarrow>
      (\<forall>r \<in> set (refreshTokens db). rt_id r \<noteq> new_row_id d)"
  shows "\<exists>db1. upsertHashOfRefreshTokenByUserId (u_id u) h j d db = Inr db1"
proof (cases "find (\<lambda>r. rt_userId r = u_id u) (refreshTokens db)")
  case None
  then have "\<forall>r \<in> set (refreshTokens db). rt_userId r \<noteq> u_id u"
    by (simp add: find_None_iff)
  with assms None show ?thesis
    by (auto simp: upsertHashOfRefreshTokenByUserId_def createRefreshToken_def list_ex_iff
        findRefreshTokenByUserId_def)
next
  case (Some row)
  with assms(2) show ?thesis
    by (auto simp: upsertHashOfRefreshTokenByUserId_def updateHashOfRefreshTokenByUserId_def
        list_ex_iff)
qed

lemma filter_map_others:
  "filter (\<lambda>r. rt_userId r \<noteq> uid)
      (map (\<lambda>r. if rt_userId r = uid then r\<lparr>rt_hash := h, rt_jti := j\<rparr> else r) rows)
   = filter (\<lambda>r. rt_userId r \<noteq> uid) rows"
  by (induction rows) auto

lemma upsert_others:
  assumes "upsertHashOfRefreshTokenByUserId uid h j d db = Inr db1"
  shows "filter (\<lambda>r. rt_userId r \<noteq> uid) (refreshTokens db1) =
     filter (\<lambda>r. rt_userId r \<noteq> uid) (refreshTokens db)"
proof (cases "find (\<lambda>r. rt_userId r = uid) (refreshTokens db)")
  case None
  with assms have c: "createRefreshToken h uid j d db = Inr db1"
    by (simp add: upsertHashOfRefreshTokenByUserId_def)
  from create_result(2) [OF c] show ?thesis by simp
next
  case (Some row)
  with assms have "updateHashOfRefreshTokenByUserId uid h j db = Inr db1"
    by (simp add: upsertHashOfRefreshTokenByUserId_def)
  then have "refreshTokens db1 =
      map (\<lambda>r. if rt_userId r = uid then r\<lparr>rt_hash := h, rt_jti := j\<rparr> else r) (refreshTokens db)"
    by (auto simp: updateHashOfRefreshTokenByUserId_def split: option.splits if_splits)
  then show ?thesis by (simp add: filter_map_others)
qed

lemma login_succeeds:
  assumes obj: "isObject (body req)"
    and em: "member (body req) ''email'' = JStr m"
    and user: "findUserByEmail (JStr m) db = Inr (Some u)"
    and pw: "member (body req) ''password'' = JStr pw" "bcrypt_compare H pw (u_hashedPassword u)"
    and rk: "REFRESH_TOKEN_SECRET e = Some rk" "rk \<noteq> []"
    and ak: "ACCESS_TOKEN_SECRET e = Some ak" "ak \<noteq> []"
    and clear: "\<forall>r \<in> set (refreshTokens db). rt_userId r \<noteq> u_id u \<longrightarrow>
        rt_hash r \<noteq> bcrypt_hash H (salt_1 d) 10 (issuedRefreshToken S rk (u_id u) d)
        \<and> rt_jti r \<noteq> uuid_2 d"
    and first: "findRefreshTokenByUserId (u_id u) db = None \<longrightarrow>
        (\<forall>r \<in> set (refreshTokens db). rt_id r \<noteq> new_row_id d)"
  shows "status (fst (login S H e d req db)) = OK"
proof -
  let ?tok = "issuedRefreshToken S rk (u_id u) d"
  let ?up = "upsertHashOfRefreshTokenByUserId (u_id u) (bcrypt_hash H (salt_1 d) 10 ?tok)
      (uuid_2 d) d db"
  have run: "login S H e d req db =
      (case ?up of
         Inl x \<Rightarrow> (reply INTERNAL_SERVER_ERROR NoContent, db)
       | Inr db1 \<Rightarrow>
           (\<lparr>status = OK,
             content = AccessToken
               (generateAccessToken S (createJwtPayload (u_id u) (uuid_1 d)) ak (clock d)),
             cookie = SetRefreshCookie ?tok\<rparr>, db1))"
    using obj em user pw rk ak unfolding issuedRefreshToken_def by (simp add: login_def Let_def)
  from user have "u \<in> set (users db)"
    by (auto simp: findUserByEmail_def dest: find_Some_mem)
  from upsert_succeeds [OF this clear first] obtain db1 where "?up = Inr db1" ..
  with run show ?thesis by simp
qed

lemma others_cong:
  assumes "filter P xs = filter P ys"
  shows "(\<forall>x \<in> set xs. P x \<longrightarrow> Q x) \<longleftrightarrow> (\<forall>x \<in> set ys. P x \<longrightarrow> Q x)"
proof -
  from assms have "set (filter P xs) = set (filter P ys)" by simp
  then show ?thesis by auto
qed

lemma logins_run:
  assumes creds: "\<forall>(d0, q) \<in> set calls.
        isObject (body q) \<and> member (body q) ''email'' = JStr m
        \<and> (\<exists>pw. member (body q) ''password'' = JStr pw
              \<and> bcrypt_compare H pw (u_hashedPassword u))"
    and user: "findUserByEmail (JStr m) db = Inr (Some u)"
    and rk: "REFRESH_TOKEN_SECRET e = Some rk" "rk \<noteq> []"
    and ak: "ACCESS_TOKEN_SECRET e = Some ak" "ak \<noteq> []"
    and clear: "\<forall>(d0, q) \<in> set calls. \<forall>r \<in> set (refreshTokens db). rt_userId r \<noteq> u_id u \<longrightarrow>
        rt_hash r \<noteq> bcrypt_hash H (salt_1 d0) 10 (issuedRefreshToken S rk (u_id u) d0)
        \<and> rt_jti r \<noteq> uuid_2 d0"
    and first: "findRefreshTokenByUserId (u_id u) db = None \<longrightarrow> calls \<noteq> [] \<longrightarrow>
        (\<forall>r \<in> set (refreshTokens db). rt_id r \<noteq> new_row_id (fst (hd calls)))"
  shows "map status (fst (logins S H e calls db)) = map (\<lambda>c. OK) calls
    \<and> filter (\<lambda>r. rt_userId r \<noteq> u_id u) (refreshTokens (snd (logins S H e calls db))) =
        filter (\<lambda>r. rt_userId r \<noteq> u_id u) (refreshTokens db)"
  using creds user clear first
proof (induction calls arbitrary: db)
  case Nil
  then show ?case by simp
next
  case (Cons call calls)
  obtain d req where call: "call = (d, req)" by (cases call)
  let ?db1 = "snd (login S H e d req db)"
  let ?tok = "issuedRefreshToken S rk (u_id u) d"
  from Cons.prems(1) obtain pw where
    obj: "isObject (body req)" and em: "member (body req) ''email'' = JStr m"
    and pw: "member (body req) ''password'' = JStr pw" "bcrypt_compare H pw (u_hashedPassword u)"
    by (auto simp: call)
  from Cons.prems(1) have creds_rest: "\<forall>(d0, q) \<in> set calls.
        isObject (body q) \<and> member (body q) ''email'' = JStr m
        \<and> (\<exists>pw. member (body q) ''password'' = JStr pw
              \<and> bcrypt_compare H pw (u_hashedPassword u))"
    by simp
  from Cons.prems(3) have clear1: "\<forall>r \<in> set (refreshTokens db). rt_userId r \<noteq> u_id u \<longrightarrow>
        rt_hash r \<noteq> bcrypt_hash H (salt_1 d) 10 ?tok \<and> rt_jti r \<noteq> uuid_2 d"
    by (simp add: call)
  from Cons.prems(4) have first1: "findRefreshTokenByUserId (u_id u) db = None \<longrightarrow>
        (\<forall>r \<in> set (refreshTokens db). rt_id r \<noteq> new_row_id d)"
    by (simp add: call)
  have ok1: "status (fst (login S H e d req db)) = OK"
    by (rule login_succeeds [OF obj em Cons.prems(2) pw rk ak clear1 first1])
  from login_OK_D [OF ok1] em Cons.prems(2) rk(1)
  have up: "upsertHashOfRefreshTokenByUserId (u_id u)
       (bcrypt_hash H (salt_1 d) 10 ?tok) (uuid_2 d) d db = Inr ?db1"
    by auto
  have others1: "filter (\<lambda>r. rt_userId r \<noteq> u_id u) (refreshTokens ?db1) =
        filter (\<lambda>r. rt_userId r \<noteq> u_id u) (refreshTokens db)"
    using up by (rule upsert_others)
  have user1: "findUserByEmail (JStr m) ?db1 = Inr (Some u)"
    using findUserByEmail_users [OF login_users] Cons.prems(2) by simp
  have "\<forall>r \<in> set (refreshTokens ?db1). rt_userId r \<noteq> u_id u \<longrightarrow>
        rt_hash r \<noteq> bcrypt_hash H (salt_1 d0) 10 (issuedRefreshToken S rk (u_id u) d0)
        \<and> rt_jti r \<noteq> uuid_2 d0"
    if "(d0, q) \<in> set calls" for d0 q
  proof -
    from that Cons.prems(3) have "\<forall>r \<in> set (refreshTokens db). rt_userId r \<noteq> u_id u \<longrightarrow>
        rt_hash r \<noteq> bcrypt_hash H (salt_1 d0) 10 (issuedRefreshToken S rk (u_id u) d0)
        \<and> rt_jti r \<noteq> uuid_2 d0"
      by auto
    then show ?thesis
      by (simp only: others_cong [OF others1])
  qed
  then have clear_rest: "\<forall>(d0, q) \<in> set calls. \<forall>r \<in> set (refreshTokens ?db1).
        rt_userId r \<noteq> u_id u \<longrightarrow>
        rt_hash r \<noteq> bcrypt_hash H (salt_1 d0) 10 (issuedRefreshToken S rk (u_id u) d0)
        \<and> rt_jti r \<noteq> uuid_2 d0"
    by blast
  from upsert_stored [OF up]
  have first_rest: "findRefreshTokenByUserId (u_id u) ?db1 = None \<longrightarrow> calls \<noteq> [] \<longrightarrow>
        (\<forall>r \<in> set (refreshTokens ?db1). rt_id r \<noteq> new_row_id (fst (hd calls)))"
    by auto
  from Cons.IH [OF creds_rest user1 clear_rest first_rest] ok1 others1
  show ?case
    by (simp add: call logins_Cons_fst logins_Cons_snd del: logins.simps)
qed

lemma successful_logins_session:
  assumes uniq: "distinct (map rt_userId (refreshTokens db))"
    and run: "logins S H e (earlier @ [(d, req)]) db = (rs, db')"
    and ok: "\<forall>r \<in> set rs. status r = OK"
    and same: "\<forall>(d0, q) \<in> set (earlier @ [(d, req)]). member (body q) ''email'' = JStr m"
    and user: "findUserByEmail (JStr m) db = Inr (Some u)"
    and rk: "REFRESH_TOKEN_SECRET e = Some rk"
    and complete: "\<forall>salt s. bcrypt_compare H s (bcrypt_hash H salt 10 s)"
    and fresh: "\<forall>(d0, q) \<in> set earlier. uuid_2 d0 \<noteq> uuid_2 d"
  shows "length (filter (\<lambda>r. rt_userId r = u_id u) (refreshTokens db')) = 1
    \<and> map cookie rs =
        map (\<lambda>(d0, q). SetRefreshCookie (issuedRefreshToken S rk (u_id u) d0)) (earlier @ [(d, req)])
    \<and> (\<exists>row. findRefreshTokenByUserId (u_id u) db' = Some row
          \<and> rt_hash row = bcrypt_hash H (salt_1 d) 10 (issuedRefreshToken S rk (u_id u) d)
          \<and> bcrypt_compare H (issuedRefreshToken S rk (u_id u) d) (rt_hash row)
          \<and> rt_jti row = uuid_2 d
          \<and> (\<forall>(d0, q) \<in> set earlier. uuid_2 d0 \<noteq> rt_jti row))
    \<and> (\<forall>q' d' c. cookies_refreshToken q' = JStr (issuedRefreshToken S rk (u_id u) d)
          \<and> issuedRefreshToken S rk (u_id u) d \<noteq> []
          \<and> jwt_verify S (issuedRefreshToken S rk (u_id u) d) rk (clock d') = Inr c
          \<and> sub c = u_id u \<and> jti c = uuid_2 d
        \<longrightarrow> status (fst (refresh S H e d' q' db')) \<noteq> UNAUTHORIZED
          \<and> status (fst (refresh S H e d' q' db')) \<noteq> FORBIDDEN)
    \<and> (\<forall>d0 q q' d' c. (d0, q) \<in> set earlier
          \<and> cookies_refreshToken q' = JStr (issuedRefreshToken S rk (u_id u) d0)
          \<and> issuedRefreshToken S rk (u_id u) d0 \<noteq> []
          \<and> jwt_verify S (issuedRefreshToken S rk (u_id u) d0) rk (clock d') = Inr c
          \<and> sub c = u_id u \<and> jti c = uuid_2 d0
        \<longrightarrow> refresh S H e d' q' db' =
              (reply FORBIDDEN (Message ''The refresh token is not valid''), db'))"
proof -
  let ?mid = "snd (logins S H e earlier db)"
  let ?tok = "issuedRefreshToken S rk (u_id u) d"
  from run have rs: "rs = fst (logins S H e (earlier @ [(d, req)]) db)"
    and db': "db' = snd (login S H e d req ?mid)"
    and parts: "rs = fst (logins S H e earlier db) @ [fst (login S H e d req ?mid)]"
    by (auto simp: logins_append Let_def case_prod_beta)
  from parts have "fst (login S H e d req ?mid) \<in> set rs" by simp
  with ok have ok_last: "status (fst (login S H e d req ?mid)) = OK" by blast
  have users_mid: "users ?mid = users db" by (rule logins_users)
  have uniq_mid: "distinct (map rt_userId (refreshTokens ?mid))"
    using uniq by (rule logins_distinct)
  have user_mid: "findUserByEmail (JStr m) ?mid = Inr (Some u)"
    using findUserByEmail_users [OF users_mid] user by simp
  from same have em: "member (body req) ''email'' = JStr m" by simp
  from login_OK_D [OF ok_last] em user_mid rk obtain ak where
    rk': "rk \<noteq> []" and ak: "ACCESS_TOKEN_SECRET e = Some ak" "ak \<noteq> []"
    and up: "upsertHashOfRefreshTokenByUserId (u_id u)
       (bcrypt_hash H (salt_1 d) 10 ?tok) (uuid_2 d) d ?mid = Inr db'"
    by (auto simp: db')
  from upsert_stored [OF up] obtain row where
    row: "findRefreshTokenByUserId (u_id u) db' = Some row"
    and h: "rt_hash row = bcrypt_hash H (salt_1 d) 10 ?tok"
    and j: "rt_jti row = uuid_2 d"
    by blast
  have uniq': "distinct (map rt_userId (refreshTokens db'))"
    using up uniq_mid by (rule upsert_distinct)
  from one_row_per_key [OF uniq' row [unfolded findRefreshTokenByUserId_def]]
  have one: "length (filter (\<lambda>r. rt_userId r = u_id u) (refreshTokens db')) = 1" .
  from ok rs have "\<forall>r \<in> set (fst (logins S H e (earlier @ [(d, req)]) db)). status r = OK"
    by simp
  from logins_cookies [OF this same user rk] rs
  have cookies: "map cookie rs =
        map (\<lambda>(d0, q). SetRefreshCookie (issuedRefreshToken S rk (u_id u) d0)) (earlier @ [(d, req)])"
    by simp
  from complete h have hm: "bcrypt_compare H ?tok (rt_hash row)" by simp
  from fresh j have older: "\<forall>(d0, q) \<in> set earlier. uuid_2 d0 \<noteq> rt_jti row" by simp
  have newest: "status (fst (refresh S H e d' q' db')) \<noteq> UNAUTHORIZED
          \<and> status (fst (refresh S H e d' q' db')) \<noteq> FORBIDDEN"
    if "cookies_refreshToken q' = JStr ?tok \<and> ?tok \<noteq> []
          \<and> jwt_verify S ?tok rk (clock d') = Inr c \<and> sub c = u_id u \<and> jti c = uuid_2 d"
    for q' d' c
  proof -
    from that row have r: "findRefreshTokenByUserId (sub c) db' = Some row" by simp
    from that j have jm: "jti c = rt_jti row" by simp
    from that have t: "cookies_refreshToken q' = JStr ?tok" "?tok \<noteq> []"
      "jwt_verify S ?tok rk (clock d') = Inr c" by simp_all
    from refresh_match_status [OF t(1,2) rk rk' ak t(3) r hm jm]
    show ?thesis by auto
  qed
  have stale: "refresh S H e d' q' db' =
              (reply FORBIDDEN (Message ''The refresh token is not valid''), db')"
    if "(d0, q) \<in> set earlier
          \<and> cookies_refreshToken q' = JStr (issuedRefreshToken S rk (u_id u) d0)
          \<and> issuedRefreshToken S rk (u_id u) d0 \<noteq> []
          \<and> jwt_verify S (issuedRefreshToken S rk (u_id u) d0) rk (clock d') = Inr c
          \<and> sub c = u_id u \<and> jti c = uuid_2 d0"
    for d0 q q' d' c
  proof -
    from that row have r: "findRefreshTokenByUserId (sub c) db' = Some row" by simp
    from older that have
      "\<not> bcrypt_compare H (issuedRefreshToken S rk (u_id u) d0) (rt_hash row) \<or> jti c \<noteq> rt_jti row"
      by auto
    moreover from that have
      "cookies_refreshToken q' = JStr (issuedRefreshToken S rk (u_id u) d0)"
      "issuedRefreshToken S rk (u_id u) d0 \<noteq> []"
      "jwt_verify S (issuedRefreshToken S rk (u_id u) d0) rk (clock d') = Inr c" by simp_all
    ultimately show ?thesis
      using refresh_mismatch [OF _ _ rk rk' ak _ r] by blast
  qed
  from one cookies row h hm j older newest stale show ?thesis by blast
qed

text \<open>
  C3.  Take a database that respects the unique index on \<^verbatim>\<open>userId\<close>, a user in it, both
  token secrets configured, and N login calls served in sequence (\<open>earlier\<close> and then a
  last one), each with that user's email and a password that the comparison with the stored
  hash accepts.  Let what the calls draw be fresh: the hash and jti of each call occur in
  no other user's record, the row id of the first call occurs in no record when the user
  has none yet, and the refresh jti of every earlier call differs from that of the last;
  and let the hasher accept the string it hashed.  Then
  \<^item> every call is answered 200, and the cookies of the N responses are the N issued
    refresh tokens;
  \<^item> the users and the records of all other users are as before;
  \<^item> the user has exactly one RefreshToken row, created by the first call if there was
    none and rewritten by every later one: it holds the hash of the last token and the jti
    of the last call, and the jti of no earlier token;
  \<^item> a refresh call with the last token, verified to its subject and jti, is not refused
    (neither 401 nor 403), and a refresh call with any earlier token, verified to its
    subject and jti, is answered 403.
\<close>

theorem single_session:
  assumes uniq: "distinct (map rt_userId (refreshTokens db))"
    and run: "logins S H e (earlier @ [(d, req)]) db = (rs, db')"
    and creds: "\<forall>(d0, q) \<in> set (earlier @ [(d, req)]).
        isObject (body q) \<and> member (body q) ''email'' = JStr m
        \<and> (\<exists>pw. member (body q) ''password'' = JStr pw
              \<and> bcrypt_compare H pw (u_hashedPassword u))"
    and user: "findUserByEmail (JStr m) db = Inr (Some u)"
    and rk: "REFRESH_TOKEN_SECRET e = Some rk" "rk \<noteq> []"
    and ak: "ACCESS_TOKEN_SECRET e = Some ak" "ak \<noteq> []"
    and complete: "\<forall>salt s. bcrypt_compare H s (bcrypt_hash H salt 10 s)"
    and fresh: "\<forall>(d0, q) \<in> set earlier. uuid_2 d0 \<noteq> uuid_2 d"
    and clear: "\<forall>(d0, q) \<in> set (earlier @ [(d, req)]).
        \<forall>r \<in> set (refreshTokens db). rt_userId r \<noteq> u_id u \<longrightarrow>
          rt_hash r \<noteq> bcrypt_hash H (salt_1 d0) 10 (issuedRefreshToken S rk (u_id u) d0)
          \<and> rt_jti r \<noteq> uuid_2 d0"
    and first: "findRefreshTokenByUserId (u_id u) db = None \<longrightarrow>
        (\<forall>r \<in> set (refreshTokens db). rt_id r \<noteq> new_row_id (fst (hd (earlier @ [(d, req)]))))"
  shows "map status rs = map (\<lambda>c. OK) (earlier @ [(d, req)])
    \<and> map cookie rs =
        map (\<lambda>(d0, q). SetRefreshCookie (issuedRefreshToken S rk (u_id u) d0)) (earlier @ [(d, req)])
    \<and> users db' = users db
    \<and> filter (\<lambda>r. rt_userId r \<noteq> u_id u) (refreshTokens db') =
        filter (\<lambda>r. rt_userId r \<noteq> u_id u) (refreshTokens db)
    \<and> length (filter (\<lambda>r. rt_userId r = u_id u) (refreshTokens db')) = 1
    \<and> (\<exists>row. findRefreshTokenByUserId (u_id u) db' = Some row
          \<and> rt_hash row = bcrypt_hash H (salt_1 d) 10 (issuedRefreshToken S rk (u_id u) d)
          \<and> bcrypt_compare H (issuedRefreshToken S rk (u_id u) d) (rt_hash row)
          \<and> rt_jti row = uuid_2 d
          \<and> (\<forall>(d0, q) \<in> set earlier. uuid_2 d0 \<noteq> rt_jti row))
    \<and> (\<forall>q' d' c. cookies_refreshToken q' = JStr (issuedRefreshToken S rk (u_id u) d)
          \<and> issuedRefreshToken S rk (u_id u) d \<noteq> []
          \<and> jwt_verify S (issuedRefreshToken S rk (u_id u) d) rk (clock d') = Inr c
          \<and> sub c = u_id u \<and> jti c = uuid_2 d
        \<longrightarrow> status (fst (refresh S H e d' q' db')) \<noteq> UNAUTHORIZED
          \<and> status (fst (refresh S H e d' q' db')) \<noteq> FORBIDDEN)
    \<and> (\<forall>d0 q q' d' c. (d0, q) \<in> set earlier
          \<and> cookies_refreshToken q' = JStr (issuedRefreshToken S rk (u_id u) d0)
          \<and> issuedRefreshToken S rk (u_id u) d0 \<noteq> []
          \<and> jwt_verify S (issuedRefreshToken S rk (u_id u) d0) rk (clock d') = Inr c
          \<and> sub c = u_id u \<and> jti c = uuid_2 d0
        \<longrightarrow> refresh S H e d' q' db' =
              (reply FORBIDDEN (Message ''The refresh token is not valid''), db'))"
proof -
  let ?calls = "earlier @ [(d, req)]"
  from run have rs: "rs = fst (logins S H e ?calls db)"
    and db': "db' = snd (logins S H e ?calls db)"
    by simp_all
  from creds have same: "\<forall>(d0, q) \<in> set ?calls. member (body q) ''email'' = JStr m"
    by auto
  from first have first': "findRefreshTokenByUserId (u_id u) db = None \<longrightarrow> ?calls \<noteq> [] \<longrightarrow>
        (\<forall>r \<in> set (refreshTokens db). rt_id r \<noteq> new_row_id (fst (hd ?calls)))"
    by simp
  note r = logins_run [OF creds user rk ak clear first']
  from r rs have st: "map status rs = map (\<lambda>c. OK) ?calls" by simp
  from r db' have others: "filter (\<lambda>r. rt_userId r \<noteq> u_id u) (refreshTokens db') =
        filter (\<lambda>r. rt_userId r \<noteq> u_id u) (refreshTokens db)"
    by simp
  have ok: "\<forall>r \<in> set rs. status r = OK"
  proof
    fix x
    assume "x \<in> set rs"
    then have "status x \<in> set (map status rs)" by simp
    with st show "status x = OK" by auto
  qed
  have us: "users db' = users db"
    unfolding db' by (rule logins_users)
  note s = successful_logins_session [OF uniq run ok same user rk(1) complete fresh]
  from s have one: "length (filter (\<lambda>r. rt_userId r = u_id u) (refreshTokens db')) = 1"
    by (rule conjunct1)
  note rest = s [THEN conjunct2]
  note cookies = rest [THEN conjunct1]
  note row = rest [THEN conjunct2, THEN conjunct1]
  note newest = rest [THEN conjunct2, THEN conjunct2, THEN conjunct1]
  note stale = rest [THEN conjunct2, THEN conjunct2, THEN conjunct2]
  from st cookies us others one row newest stale
  show ?thesis by (intro conjI)
qed

lemmas session_sample_defs = sample_signer_def ledger_signer_def claims_def sample_hasher_def
  sample_env_def sample_db_def alice_def bob_def alice_session_def bob_session_def at_time_def
  with_cookie_def with_body_def relogged_db_def alice_credentials_def issuedRefreshToken_def
  generateAccessToken_def generateRefreshToken_def createJwtPayload_def

text \<open>Two runs.  User \<^verbatim>\<open>u1\<close>, who has a record, logs in twice: the record is rewritten twice
  and holds the second token; the first token is refused by refresh, the second is not.
  And user \<^verbatim>\<open>u1\<close> logs in once on a database that holds a record of \<^verbatim>\<open>u2\<close> only: a record is
  created for \<^verbatim>\<open>u1\<close> and that of \<^verbatim>\<open>u2\<close> stays.\<close>

theorem single_session_witness:
  "logins sample_signer sample_hasher sample_env
      [(at_time 100 ''a1'' ''j1'', with_body alice_credentials),
       (at_time 200 ''a2'' ''j2'', with_body alice_credentials)] sample_db
     = ([\<lparr>status = OK, content = AccessToken ''jwt.u1.a1.ak'',
          cookie = SetRefreshCookie ''jwt.u1.j1.rk''\<rparr>,
         \<lparr>status = OK, content = AccessToken ''jwt.u1.a2.ak'',
          cookie = SetRefreshCookie ''jwt.u1.j2.rk''\<rparr>],
        sample_db\<lparr>refreshTokens :=
          [alice_session\<lparr>rt_hash := ''$jwt.u1.j2.rk'', rt_jti := ''j2''\<rparr>]\<rparr>)
   \<and> length (filter (\<lambda>r. rt_userId r = ''u1'') (refreshTokens relogged_db)) = 1
   \<and> refresh sample_signer sample_hasher sample_env (at_time 300 ''a3'' ''j3'')
        (with_cookie (JStr ''jwt.u1.j1.rk'')) relogged_db
      = (reply FORBIDDEN (Message ''The refresh token is not valid''), relogged_db)
   \<and> status (fst (refresh sample_signer sample_hasher sample_env (at_time 300 ''a3'' ''j3'')
        (with_cookie (JStr ''jwt.u1.j2.rk'')) relogged_db)) \<noteq> FORBIDDEN
   \<and> logins sample_signer sample_hasher sample_env
      [(at_time 100 ''a1'' ''j1'', with_body alice_credentials)]
      (sample_db\<lparr>refreshTokens := [bob_session]\<rparr>)
     = ([\<lparr>status = OK, content = AccessToken ''jwt.u1.a1.ak'',
          cookie = SetRefreshCookie ''jwt.u1.j1.rk''\<rparr>],
        sample_db\<lparr>refreshTokens :=
          [bob_session,
           \<lparr>rt_id = ''r1'', rt_hash = ''$jwt.u1.j1.rk'', rt_jti = ''j1'', rt_userId = ''u1'',
            rt_createdAt = 100\<rparr>]\<rparr>)
   \<and> (\<exists>rs db'. logins sample_signer sample_hasher sample_env
          [(at_time 100 ''a1'' ''j1'', with_body alice_credentials)]
          (sample_db\<lparr>refreshTokens := [bob_session]\<rparr>) = (rs, db')
        \<and> map status rs = [OK]
        \<and> filter (\<lambda>r. rt_userId r \<noteq> ''u1'') (refreshTokens db') = [bob_session]
        \<and> length (filter (\<lambda>r. rt_userId r = ''u1'') (refreshTokens db')) = 1
        \<and> (\<exists>row. findRefreshTokenByUserId ''u1'' db' = Some row
              \<and> rt_hash row = ''$jwt.u1.j1.rk'' \<and> rt_jti row = ''j1''))"
proof -
  let ?S = sample_signer and ?H = sample_hasher and ?e = sample_env
  let ?d1 = "at_time 100 ''a1'' ''j1''" and ?d2 = "at_time 200 ''a2'' ''j2''"
  let ?d3 = "at_time 300 ''a3'' ''j3''"
  let ?req = "with_body alice_credentials"
  let ?r1 = "\<lparr>status = OK, content = AccessToken ''jwt.u1.a1.ak'',
                cookie = SetRefreshCookie ''jwt.u1.j1.rk''\<rparr>"
  let ?r2 = "\<lparr>status = OK, content = AccessToken ''jwt.u1.a2.ak'',
                cookie = SetRefreshCookie ''jwt.u1.j2.rk''\<rparr>"
  let ?db0 = "sample_db\<lparr>refreshTokens := [bob_session]\<rparr>"
  let ?db1 = "sample_db\<lparr>refreshTokens :=
          [bob_session,
           \<lparr>rt_id = ''r1'', rt_hash = ''$jwt.u1.j1.rk'', rt_jti = ''j1'', rt_userId = ''u1'',
            rt_createdAt = 100\<rparr>]\<rparr>"
  have rk: "REFRESH_TOKEN_SECRET ?e = Some ''rk''" "''rk'' \<noteq> []"
    and ak: "ACCESS_TOKEN_SECRET ?e = Some ''ak''" "''ak'' \<noteq> []"
    by (simp_all add: sample_env_def)
  have complete: "\<forall>salt s. bcrypt_compare ?H s (bcrypt_hash ?H salt 10 s)"
    by (simp add: sample_hasher_def)

  have uniq: "distinct (map rt_userId (refreshTokens sample_db))"
    by (simp add: sample_db_def)
  have run: "logins ?S ?H ?e ([(?d1, ?req)] @ [(?d2, ?req)]) sample_db = ([?r1, ?r2], relogged_db)"
    by (simp add: login_def isObject_def findUserByEmail_def compare_def hash_def
        upsertHashOfRefreshTokenByUserId_def updateHashOfRefreshTokenByUserId_def
        session_sample_defs Let_def)
  have creds: "\<forall>(d0, q) \<in> set ([(?d1, ?req)] @ [(?d2, ?req)]).
        isObject (body q) \<and> member (body q) ''email'' = JStr ''alice@example.com''
        \<and> (\<exists>pw. member (body q) ''password'' = JStr pw
              \<and> bcrypt_compare ?H pw (u_hashedPassword alice))"
    by (simp add: with_body_def alice_credentials_def isObject_def sample_hasher_def alice_def)
  have user: "findUserByEmail (JStr ''alice@example.com'') sample_db = Inr (Some alice)"
    by (simp add: findUserByEmail_def sample_db_def alice_def)
  have fresh: "\<forall>(d0, q) \<in> set [(?d1, ?req)]. uuid_2 d0 \<noteq> uuid_2 ?d2"
    by (simp add: at_time_def)
  have clear: "\<forall>(d0, q) \<in> set ([(?d1, ?req)] @ [(?d2, ?req)]).
        \<forall>r \<in> set (refreshTokens sample_db). rt_userId r \<noteq> u_id alice \<longrightarrow>
          rt_hash r \<noteq> bcrypt_hash ?H (salt_1 d0) 10 (issuedRefreshToken ?S ''rk'' (u_id alice) d0)
          \<and> rt_jti r \<noteq> uuid_2 d0"
    by (simp add: sample_db_def alice_session_def alice_def)
  have first: "findRefreshTokenByUserId (u_id alice) sample_db = None \<longrightarrow>
        (\<forall>r \<in> set (refreshTokens sample_db).
           rt_id r \<noteq> new_row_id (fst (hd ([(?d1, ?req)] @ [(?d2, ?req)]))))"
    by (simp add: findRefreshTokenByUserId_def sample_db_def alice_session_def alice_def)
  note t = single_session [OF uniq run creds user rk ak complete fresh clear first]
  note one = t [THEN conjunct2, THEN conjunct2, THEN conjunct2, THEN conjunct2, THEN conjunct1]
  note newest = t [THEN conjunct2, THEN conjunct2, THEN conjunct2, THEN conjunct2,
      THEN conjunct2, THEN conjunct2, THEN conjunct1, rule_format,
      of "with_cookie (JStr ''jwt.u1.j2.rk'')" ?d3 "claims ''u1'' ''j2'' 200 605000"]
  note stale = t [THEN conjunct2, THEN conjunct2, THEN conjunct2, THEN conjunct2,
      THEN conjunct2, THEN conjunct2, THEN conjunct2, rule_format,
      of ?d1 ?req "with_cookie (JStr ''jwt.u1.j1.rk'')" ?d3 "claims ''u1'' ''j1'' 100 604900"]
  have a: "status (fst (refresh ?S ?H ?e ?d3 (with_cookie (JStr ''jwt.u1.j2.rk'')) relogged_db))
      \<noteq> FORBIDDEN"
    using newest by (simp add: session_sample_defs)
  have b: "refresh ?S ?H ?e ?d3 (with_cookie (JStr ''jwt.u1.j1.rk'')) relogged_db
      = (reply FORBIDDEN (Message ''The refresh token is not valid''), relogged_db)"
    using stale by (simp add: session_sample_defs)
  have one': "length (filter (\<lambda>r. rt_userId r = ''u1'') (refreshTokens relogged_db)) = 1"
    using one by (simp add: alice_def)
  have run': "logins ?S ?H ?e [(?d1, ?req), (?d2, ?req)] sample_db =
      ([?r1, ?r2], sample_db\<lparr>refreshTokens :=
          [alice_session\<lparr>rt_hash := ''$jwt.u1.j2.rk'', rt_jti := ''j2''\<rparr>]\<rparr>)"
    using run by (simp add: relogged_db_def)

  have uniq0: "distinct (map rt_userId (refreshTokens ?db0))"
    by simp
  have run0: "logins ?S ?H ?e ([] @ [(?d1, ?req)]) ?db0 = ([?r1], ?db1)"
    by (simp add: login_def isObject_def findUserByEmail_def compare_def hash_def
        upsertHashOfRefreshTokenByUserId_def createRefreshToken_def
        session_sample_defs Let_def)
  have creds0: "\<forall>(d0, q) \<in> set ([] @ [(?d1, ?req)]).
        isObject (body q) \<and> member (body q) ''email'' = JStr ''alice@example.com''
        \<and> (\<exists>pw. member (body q) ''password'' = JStr pw
              \<and> bcrypt_compare ?H pw (u_hashedPassword alice))"
    by (simp add: with_body_def alice_credentials_def isObject_def sample_hasher_def alice_def)
  have user0: "findUserByEmail (JStr ''alice@example.com'') ?db0 = Inr (Some alice)"
    by (simp add: findUserByEmail_def sample_db_def alice_def)
  have fresh0: "\<forall>(d0, q) \<in> set []. uuid_2 d0 \<noteq> uuid_2 ?d1"
    by simp
  have clear0: "\<forall>(d0, q) \<in> set ([] @ [(?d1, ?req)]).
        \<forall>r \<in> set (refreshTokens ?db0). rt_userId r \<noteq> u_id alice \<longrightarrow>
          rt_hash r \<noteq> bcrypt_hash ?H (salt_1 d0) 10 (issuedRefreshToken ?S ''rk'' (u_id alice) d0)
          \<and> rt_jti r \<noteq> uuid_2 d0"
    by (simp add: session_sample_defs)
  have first0: "findRefreshTokenByUserId (u_id alice) ?db0 = None \<longrightarrow>
        (\<forall>r \<in> set (refreshTokens ?db0).
           rt_id r \<noteq> new_row_id (fst (hd ([] @ [(?d1, ?req)]))))"
    by (simp add: bob_session_def at_time_def)
  note t0 = single_session [OF uniq0 run0 creds0 user0 rk ak complete fresh0 clear0 first0]
  have st0: "map status [?r1] = [OK]"
    using t0 [THEN conjunct1] by simp
  have others0: "filter (\<lambda>r. rt_userId r \<noteq> ''u1'') (refreshTokens ?db1) = [bob_session]"
    using t0 [THEN conjunct2, THEN conjunct2, THEN conjunct2, THEN conjunct1]
    by (simp add: alice_def bob_session_def)
  have one0: "length (filter (\<lambda>r. rt_userId r = ''u1'') (refreshTokens ?db1)) = 1"
    using t0 [THEN conjunct2, THEN conjunct2, THEN conjunct2, THEN conjunct2, THEN conjunct1]
    by (simp add: alice_def)
  have row0: "\<exists>row. findRefreshTokenByUserId ''u1'' ?db1 = Some row
              \<and> rt_hash row = ''$jwt.u1.j1.rk'' \<and> rt_jti row = ''j1''"
    using t0 [THEN conjunct2, THEN conjunct2, THEN conjunct2, THEN conjunct2, THEN conjunct2,
        THEN conjunct1]
    by (simp add: session_sample_defs)
  have run0': "logins ?S ?H ?e [(?d1, ?req)] ?db0 = ([?r1], ?db1)"
    using run0 by simp
  from row0 obtain row where r: "findRefreshTokenByUserId ''u1'' ?db1 = Some row
              \<and> rt_hash row = ''$jwt.u1.j1.rk'' \<and> rt_jti row = ''j1''" ..
  have last: "\<exists>rs db'. logins ?S ?H ?e [(?d1, ?req)] ?db0 = (rs, db')
        \<and> map status rs = [OK]
        \<and> filter (\<lambda>r. rt_userId r \<noteq> ''u1'') (refreshTokens db') = [bob_session]
        \<and> length (filter (\<lambda>r. rt_userId r = ''u1'') (refreshTokens db')) = 1
        \<and> (\<exists>row. findRefreshTokenByUserId ''u1'' db' = Some row
              \<and> rt_hash row = ''$jwt.u1.j1.rk'' \<and> rt_jti row = ''j1'')"
  proof (intro exI conjI)
    show "logins ?S ?H ?e [(?d1, ?req)] ?db0 = ([?r1], ?db1)" by (rule run0')
    show "map status [?r1] = [OK]" by (rule st0)
    show "filter (\<lambda>r. rt_userId r \<noteq> ''u1'') (refreshTokens ?db1) = [bob_session]"
      by (rule others0)
    show "length (filter (\<lambda>r. rt_userId r = ''u1'') (refreshTokens ?db1)) = 1" by (rule one0)
    from r show "findRefreshTokenByUserId ''u1'' ?db1 = Some row" by (rule conjunct1)
    from r show "rt_hash row = ''$jwt.u1.j1.rk''" by simp
    from r show "rt_jti row = ''j1''" by simp
  qed
  from run' one' b a run0' last show ?thesis by (intro conjI)
qed

end
